theory Spec2Isabelle
  imports Main "HOL-Library.Word"
begin

section \<open>JavaScript strings\<close>

text \<open>
  A JavaScript string is a sequence of UTF-16 code units; \<open>length\<close>, \<open>substring\<close> and
  \<open>trim\<close> count and inspect code units. String literals of the source are ASCII and are
  written through \<open>str\<close>.
\<close>

type_synonym jschar = "16 word"
type_synonym jsstring = "jschar list"

definition str :: "string \<Rightarrow> jsstring" where
  "str cs = map of_char cs"

text \<open>\<open>a || b\<close> on strings: the empty string is the only falsy string.\<close>

definition orElse :: "jsstring \<Rightarrow> jsstring \<Rightarrow> jsstring" where
  "orElse a b = (if a = [] then b else a)"

text \<open>\<open>Array.prototype.join\<close> on an array of strings.\<close>

fun join :: "jsstring \<Rightarrow> jsstring list \<Rightarrow> jsstring" where
  "join sep [] = []"
| "join sep [x] = x"
| "join sep (x # y # ys) = x @ sep @ join sep (y # ys)"

text \<open>
  \<open>String.prototype.trim\<close> removes WhiteSpace and LineTerminator code points
  (ECMA-262, TrimString) from both ends.
\<close>

definition isWhiteSpace :: "jschar \<Rightarrow> bool" where
  "isWhiteSpace c \<longleftrightarrow>
     c = 0x0009 \<or> c = 0x000A \<or> c = 0x000B \<or> c = 0x000C \<or> c = 0x000D \<or> c = 0x0020 \<or>
     c = 0x00A0 \<or> c = 0x1680 \<or> (0x2000 \<le> c \<and> c \<le> 0x200A) \<or> c = 0x2028 \<or>
     c = 0x2029 \<or> c = 0x202F \<or> c = 0x205F \<or> c = 0x3000 \<or> c = 0xFEFF"

definition trimStart :: "jsstring \<Rightarrow> jsstring" where
  "trimStart s = dropWhile isWhiteSpace s"

definition trim :: "jsstring \<Rightarrow> jsstring" where
  "trim s = rev (trimStart (rev (trimStart s)))"

subsection \<open>encodeURIComponent\<close>

text \<open>
  ECMA-262 \<open>Encode(string, unescapedSet)\<close> with the unreserved set of
  \<open>encodeURIComponent\<close>: letters, digits and \<open>- _ . ! ~ * ' ( )\<close> are copied, every other
  code point is written as the percent-escaped octets of its UTF-8 encoding, and an unpaired
  surrogate throws \<open>URIError\<close> (the value \<open>None\<close>).
\<close>

definition uriUnescaped :: "jschar \<Rightarrow> bool" where
  "uriUnescaped c \<longleftrightarrow>
     (0x41 \<le> c \<and> c \<le> 0x5A) \<or> (0x61 \<le> c \<and> c \<le> 0x7A) \<or> (0x30 \<le> c \<and> c \<le> 0x39) \<or>
     c = 0x2D \<or> c = 0x5F \<or> c = 0x2E \<or> c = 0x21 \<or> c = 0x7E \<or> c = 0x2A \<or>
     c = 0x27 \<or> c = 0x28 \<or> c = 0x29"

definition isLeadingSurrogate :: "jschar \<Rightarrow> bool" where
  "isLeadingSurrogate c \<longleftrightarrow> 0xD800 \<le> c \<and> c \<le> 0xDBFF"

definition isTrailingSurrogate :: "jschar \<Rightarrow> bool" where
  "isTrailingSurrogate c \<longleftrightarrow> 0xDC00 \<le> c \<and> c \<le> 0xDFFF"

definition surrogatePair :: "jschar \<Rightarrow> jschar \<Rightarrow> nat" where
  "surrogatePair lead trail = (unat lead - 0xD800) * 0x400 + (unat trail - 0xDC00) + 0x10000"

definition utf8 :: "nat \<Rightarrow> nat list" where
  "utf8 cp =
     (if cp < 0x80 then [cp]
      else if cp < 0x800 then [0xC0 + cp div 64, 0x80 + cp mod 64]
      else if cp < 0x10000 then
        [0xE0 + cp div 4096, 0x80 + (cp div 64) mod 64, 0x80 + cp mod 64]
      else
        [0xF0 + cp div 262144, 0x80 + (cp div 4096) mod 64, 0x80 + (cp div 64) mod 64,
         0x80 + cp mod 64])"

definition hexDigit :: "nat \<Rightarrow> jschar" where
  "hexDigit n = str ''0123456789ABCDEF'' ! (n mod 16)"

definition percentOctets :: "nat list \<Rightarrow> jsstring" where
  "percentOctets octets = concat (map (\<lambda>b. [0x25, hexDigit (b div 16), hexDigit b]) octets)"

fun encodeURIComponent :: "jsstring \<Rightarrow> jsstring option" where
  "encodeURIComponent [] = Some []"
| "encodeURIComponent (c # cs) =
     (if uriUnescaped c then map_option ((#) c) (encodeURIComponent cs)
      else if isLeadingSurrogate c then
        (case cs of
           [] \<Rightarrow> None
         | d # ds \<Rightarrow>
             if isTrailingSurrogate d
             then map_option ((@) (percentOctets (utf8 (surrogatePair c d))))
                    (encodeURIComponent ds)
             else None)
      else if isTrailingSurrogate c then None
      else map_option ((@) (percentOctets (utf8 (unat c)))) (encodeURIComponent cs))"

subsection \<open>Numbers and parseInt\<close>

text \<open>
  The Numbers this program holds are values of \<open>parseInt\<close>, or the literal \<open>0\<close>: doubles
  whose value is an integer, or an infinity. \<open>Finite i\<close> is the double of value \<open>i\<close>; the
  sign of a zero is not kept, since \<open>-0\<close> and \<open>0\<close> behave alike wherever the program uses
  them. \<open>toNumber\<close> is the conversion of a mathematical integer to the nearest double,
  ties to the even significand, with overflow to an infinity (ECMA-262, the Number value
  for a mathematical value). An integer of at most 53 bits is a double; a longer one keeps
  its 53 leading bits, rounded, and overflows when the rounded value needs more than 1024
  bits.
\<close>

datatype number = Finite int | PosInfinity | NegInfinity

function bitLength :: "int \<Rightarrow> nat" where
  "bitLength m = (if m \<le> 0 then 0 else Suc (bitLength (m div 2)))"
  by pat_completeness auto
termination
  by (relation "measure nat") auto

definition toNumber :: "int \<Rightarrow> number" where
  "toNumber i =
     (let m = \<bar>i\<bar>;
          e = bitLength m - 53
      in
      if e = 0 then Finite i
      else
        let q = m div 2 ^ e;
            r = m mod 2 ^ e;
            half = 2 ^ (e - 1);
            q' = (if r > half \<or> (r = half \<and> odd q) then q + 1 else q);
            v = q' * 2 ^ e
        in if bitLength v > 1024 then (if i < 0 then NegInfinity else PosInfinity)
           else Finite (if i < 0 then - v else v))"

text \<open>\<open>x > 0\<close> on a Number.\<close>

fun positive :: "number \<Rightarrow> bool" where
  "positive (Finite i) = (0 < i)"
| "positive PosInfinity = True"
| "positive NegInfinity = False"

text \<open>
  \<open>parseInt(string)\<close> without a radix: leading white space is skipped, a sign is read, a
  \<open>0x\<close>/\<open>0X\<close> prefix selects radix 16, and the longest run of digits is the value; no digit
  gives \<open>NaN\<close> (the value \<open>None\<close>). The digits are read exactly, as the engines in use
  do (the standard lets an implementation approximate a decimal numeral past its 20th
  significant digit).
\<close>

definition digitValue :: "jschar \<Rightarrow> nat option" where
  "digitValue c =
     (if 0x30 \<le> c \<and> c \<le> 0x39 then Some (unat c - 0x30)
      else if 0x61 \<le> c \<and> c \<le> 0x7A then Some (unat c - 0x61 + 10)
      else if 0x41 \<le> c \<and> c \<le> 0x5A then Some (unat c - 0x41 + 10)
      else None)"

definition isRadixDigit :: "nat \<Rightarrow> jschar \<Rightarrow> bool" where
  "isRadixDigit R c = (case digitValue c of None \<Rightarrow> False | Some v \<Rightarrow> v < R)"

definition digitsValue :: "nat \<Rightarrow> jsstring \<Rightarrow> int" where
  "digitsValue R Z = foldl (\<lambda>acc c. acc * int R + int (the (digitValue c))) 0 Z"

definition parseInt :: "jsstring \<Rightarrow> number option" where
  "parseInt inputString =
     (let S = trimStart inputString;
          sign = (if S \<noteq> [] \<and> hd S = 0x2D then -1 else 1 :: int);
          S1 = (if S \<noteq> [] \<and> (hd S = 0x2B \<or> hd S = 0x2D) then tl S else S);
          hex = (length S1 \<ge> 2 \<and> (take 2 S1 = str ''0x'' \<or> take 2 S1 = str ''0X''));
          R = (if hex then 16 else 10 :: nat);
          S2 = (if hex then drop 2 S1 else S1);
          Z = takeWhile (isRadixDigit R) S2
      in if Z = [] then None else Some (toNumber (sign * digitsValue R Z)))"

section \<open>The DOM of the detail payload\<close>

text \<open>
  The XML document that \<open>DOMParser.parseFromString\<close> returns: element nodes with their
  local name, attributes and children, text nodes (CDATA sections included) and comment
  nodes (processing instructions behave alike here).
\<close>

datatype xml =
    Element jsstring "(jsstring \<times> jsstring) list" "xml list"
  | Text jsstring
  | Comment jsstring

type_synonym document = "xml list"

text \<open>A node handle: the local names of the node's ancestors, nearest first, and the node.\<close>

type_synonym node = "jsstring list \<times> xml"

fun descendantText :: "xml \<Rightarrow> jsstring" where
  "descendantText (Element t as cs) = concat (map descendantText cs)"
| "descendantText (Text d) = d"
| "descendantText (Comment d) = []"

definition textContent :: "node \<Rightarrow> jsstring" where
  "textContent n =
     (case snd n of
        Element t as cs \<Rightarrow> descendantText (Element t as cs)
      | Text d \<Rightarrow> d
      | Comment d \<Rightarrow> d)"

text \<open>The descendants of a node in document order (the node itself excluded).\<close>

fun descendants :: "jsstring list \<Rightarrow> xml \<Rightarrow> node list" where
  "descendants anc (Element t as cs) =
     concat (map (\<lambda>c. (t # anc, c) # descendants (t # anc) c) cs)"
| "descendants anc (Text d) = []"
| "descendants anc (Comment d) = []"

text \<open>
  The three shapes of selector the program uses: a type selector \<open>T\<close>, a descendant
  combinator \<open>A T\<close> and a type selector with an attribute test \<open>T[k="v"]\<close>. A selector is
  matched against the whole document, so the ancestor \<open>A\<close> of \<open>A T\<close> may lie above the
  element the query starts from.
\<close>

datatype selector =
    Type jsstring
  | Inside jsstring jsstring
  | TypeAttr jsstring jsstring jsstring

fun matches :: "selector \<Rightarrow> node \<Rightarrow> bool" where
  "matches (Type T) (anc, Element t as cs) = (t = T)"
| "matches (Inside A T) (anc, Element t as cs) = (t = T \<and> A \<in> set anc)"
| "matches (TypeAttr T k v) (anc, Element t as cs) = (t = T \<and> map_of as k = Some v)"
| "matches sel (anc, Text d) = False"
| "matches sel (anc, Comment d) = False"

definition querySelectorAll :: "selector \<Rightarrow> node \<Rightarrow> node list" where
  "querySelectorAll sel n = filter (matches sel) (descendants (fst n) (snd n))"

definition querySelector :: "selector \<Rightarrow> node \<Rightarrow> node option" where
  "querySelector sel n =
     (case querySelectorAll sel n of [] \<Rightarrow> None | e # es \<Rightarrow> Some e)"

definition documentQuerySelectorAll :: "selector \<Rightarrow> document \<Rightarrow> node list" where
  "documentQuerySelectorAll sel doc =
     filter (matches sel) (concat (map (\<lambda>c. ([], c) # descendants [] c) doc))"

section \<open>Paper records and the parser\<close>

record paper =
  id' :: jsstring
  title :: jsstring
  authors :: "jsstring list"
  abstract :: jsstring
  journal :: jsstring
  year :: jsstring
  pmid :: jsstring
  doi :: "jsstring option"

text \<open>\<open>el?.textContent || d\<close>\<close>

definition textOr :: "node option \<Rightarrow> jsstring \<Rightarrow> jsstring" where
  "textOr el d = (case el of None \<Rightarrow> d | Some e \<Rightarrow> orElse (textContent e) d)"

text \<open>The body of the inner \<open>forEach\<close>: the display name pushed for one author, if any.\<close>

definition authorName :: "node \<Rightarrow> jsstring option" where
  "authorName author =
     (let lastName = textOr (querySelector (Type (str ''LastName'')) author) [];
          foreName = textOr (querySelector (Type (str ''ForeName'')) author) []
      in if lastName \<noteq> [] \<or> foreName \<noteq> []
         then Some (trim (foreName @ str '' '' @ lastName))
         else None)"

definition collectAuthors :: "node \<Rightarrow> jsstring list" where
  "collectAuthors article =
     foldl (\<lambda>acc author. case authorName author of None \<Rightarrow> acc | Some n \<Rightarrow> acc @ [n])
       [] (querySelectorAll (Type (str ''Author'')) article)"

text \<open>The body of the outer \<open>forEach\<close>: the record pushed for one article, if any.\<close>

definition parseArticle :: "node \<Rightarrow> paper option" where
  "parseArticle article =
     (let titleEl = querySelector (Type (str ''ArticleTitle'')) article;
          abstractEl = querySelector (Type (str ''AbstractText'')) article;
          journalEl = querySelector (Inside (str ''Journal'') (str ''Title'')) article;
          yearEl = querySelector (Inside (str ''PubDate'') (str ''Year'')) article;
          pmidEl = querySelector (Type (str ''PMID'')) article;
          doiEl = querySelector (TypeAttr (str ''ArticleId'') (str ''IdType'') (str ''doi'')) article;
          authors = collectAuthors article
      in case (titleEl, pmidEl) of
           (Some t, Some p) \<Rightarrow>
             Some \<lparr> id' = orElse (textContent p) [],
                    title = orElse (textContent t) [],
                    authors = take 5 authors,
                    abstract = textOr abstractEl (str ''No abstract available''),
                    journal = textOr journalEl (str ''Unknown Journal''),
                    year = textOr yearEl (str ''N/A''),
                    pmid = orElse (textContent p) [],
                    doi = (case doiEl of
                             None \<Rightarrow> None
                           | Some d \<Rightarrow> if textContent d = [] then None else Some (textContent d)) \<rparr>
         | _ \<Rightarrow> None)"

definition parsePapers :: "document \<Rightarrow> paper list" where
  "parsePapers xmlDoc =
     foldl (\<lambda>parsedPapers article.
              case parseArticle article of None \<Rightarrow> parsedPapers | Some p \<Rightarrow> parsedPapers @ [p])
       [] (documentQuerySelectorAll (Type (str ''PubmedArticle'')) xmlDoc)"

section \<open>JSON values\<close>

text \<open>
  What \<open>response.json()\<close> resolves to: any JSON value. An object is the list of its
  members in the order of the text, where a repeated key takes its last value. The numbers
  are left abstract (\<open>'n\<close>); the two things the program can do with one, convert it to a
  string and test it for zero, are taken from the platform.
\<close>

datatype 'n json =
    JNull
  | JBool bool
  | JNumber 'n
  | JString jsstring
  | JArray "'n json list"
  | JObject "(jsstring \<times> 'n json) list"

text \<open>
  \<open>v.name\<close> on a value that is not \<open>null\<close>, for a name that is neither \<open>length\<close> nor an
  index: an own member of an object, \<open>undefined\<close> (the value \<open>None\<close>) on anything else.
\<close>

definition getMember :: "'n json \<Rightarrow> jsstring \<Rightarrow> 'n json option" where
  "getMember v name = (case v of JObject ms \<Rightarrow> map_of (rev ms) name | _ \<Rightarrow> None)"

text \<open>\<open>v?.name\<close>: \<open>undefined\<close> when \<open>v\<close> is \<open>undefined\<close> or \<open>null\<close>.\<close>

definition optMember :: "'n json option \<Rightarrow> jsstring \<Rightarrow> 'n json option" where
  "optMember v name =
     (case v of None \<Rightarrow> None | Some JNull \<Rightarrow> None | Some w \<Rightarrow> getMember w name)"

text \<open>Truthiness of a JSON value.\<close>

definition truthy :: "('n \<Rightarrow> bool) \<Rightarrow> 'n json \<Rightarrow> bool" where
  "truthy isZero v =
     (case v of
        JNull \<Rightarrow> False
      | JBool b \<Rightarrow> b
      | JNumber n \<Rightarrow> \<not> isZero n
      | JString s \<Rightarrow> s \<noteq> []
      | JArray xs \<Rightarrow> True
      | JObject ms \<Rightarrow> True)"

text \<open>
  Truthiness of \<open>v?.length\<close>: the number of elements of an array, the number of code units
  of a string, the member called \<open>length\<close> of an object, \<open>undefined\<close> otherwise.
\<close>

definition lengthTruthy :: "('n \<Rightarrow> bool) \<Rightarrow> 'n json option \<Rightarrow> bool" where
  "lengthTruthy isZero v =
     (case v of
        None \<Rightarrow> False
      | Some JNull \<Rightarrow> False
      | Some (JBool b) \<Rightarrow> False
      | Some (JNumber n) \<Rightarrow> False
      | Some (JString s) \<Rightarrow> s \<noteq> []
      | Some (JArray xs) \<Rightarrow> xs \<noteq> []
      | Some (JObject ms) \<Rightarrow>
          (case map_of (rev ms) (str ''length'') of
             None \<Rightarrow> False
           | Some l \<Rightarrow> truthy isZero l))"

text \<open>
  \<open>ToString\<close> of a JSON value, and \<open>Array.prototype.join\<close>, which writes \<open>null\<close> elements
  as the empty string; an array converts to a string by joining with a comma.
\<close>

fun toString :: "('n \<Rightarrow> jsstring) \<Rightarrow> 'n json \<Rightarrow> jsstring" where
  "toString num JNull = str ''null''"
| "toString num (JBool b) = (if b then str ''true'' else str ''false'')"
| "toString num (JNumber n) = num n"
| "toString num (JString s) = s"
| "toString num (JArray xs) =
     join (str '','') (map (\<lambda>x. if x = JNull then [] else toString num x) xs)"
| "toString num (JObject ms) = str ''[object Object]''"

definition arrayJoin :: "('n \<Rightarrow> jsstring) \<Rightarrow> jsstring \<Rightarrow> 'n json list \<Rightarrow> jsstring" where
  "arrayJoin num sep xs = join sep (map (\<lambda>x. if x = JNull then [] else toString num x) xs)"

text \<open>\<open>ToString\<close> of a value that may be \<open>undefined\<close>.\<close>

definition toStringOpt :: "('n \<Rightarrow> jsstring) \<Rightarrow> 'n json option \<Rightarrow> jsstring" where
  "toStringOpt num v = (case v of None \<Rightarrow> str ''undefined'' | Some w \<Rightarrow> toString num w)"

text \<open>\<open>ids.join\<close> is callable on an array only; on any other value the call throws.\<close>

definition asArray :: "'n json option \<Rightarrow> 'n json list option" where
  "asArray v = (case v of Some (JArray xs) \<Rightarrow> Some xs | _ \<Rightarrow> None)"

section \<open>The platform\<close>

text \<open>
  What the browser and the provider contribute. \<open>fetch\<close> resolves to a response or rejects
  (\<open>None\<close>: a network failure); it resolves whatever the HTTP status is. \<open>json\<close> and
  \<open>text\<close> read a response's body and may reject as well (\<open>None\<close>: the body cannot be
  read or is not JSON). \<open>parseFromString\<close> is \<open>DOMParser.parseFromString(_, 'text/xml')\<close>,
  which never throws. \<open>numberToString\<close> and \<open>numberIsZero\<close> are the conversion of a JSON
  number to a string and its test for zero.
\<close>

record response =
  status :: nat
  body :: "8 word list"

record 'n platform =
  fetch :: "jsstring \<Rightarrow> response option"
  json :: "response \<Rightarrow> 'n json option"
  text' :: "response \<Rightarrow> jsstring option"
  parseFromString :: "jsstring \<Rightarrow> document"
  numberToString :: "'n \<Rightarrow> jsstring"
  numberIsZero :: "'n \<Rightarrow> bool"

section \<open>Component state and the search handler\<close>

record state =
  query :: jsstring
  papers :: "paper list"
  loading :: bool
  error :: jsstring
  resultCount :: number
  maxResults :: jsstring
  sortBy :: jsstring

text \<open>The initial values of the \<open>useState\<close> hooks.\<close>

definition initialState :: state where
  "initialState =
     \<lparr> query = [], papers = [], loading = False, error = [], resultCount = Finite 0,
       maxResults = str ''20'', sortBy = str ''relevance'' \<rparr>"

definition domainFilter :: jsstring where
  "domainFilter =
     str '' AND (drug development[MeSH Terms] OR pharmaceutical development OR drug discovery)''"

definition searchUrl :: "jsstring \<Rightarrow> jsstring \<Rightarrow> jsstring \<Rightarrow> jsstring" where
  "searchUrl searchTerm maxRes sortKey =
     str ''https://eutils.ncbi.nlm.nih.gov/entrez/eutils/esearch.fcgi?db=pubmed&term=''
     @ searchTerm @ str ''&retmax='' @ maxRes @ str ''&retmode=json&sort='' @ sortKey"

text \<open>The detail URL, from the identifiers already joined by \<open>ids.join(',')\<close>.\<close>

definition fetchUrl :: "jsstring \<Rightarrow> jsstring" where
  "fetchUrl joined =
     str ''https://eutils.ncbi.nlm.nih.gov/entrez/eutils/efetch.fcgi?db=pubmed&id=''
     @ joined @ str ''&retmode=xml''"

definition noResultsMessage :: jsstring where
  "noResultsMessage = str ''No research papers found. Try different keywords.''"

definition fetchErrorMessage :: jsstring where
  "fetchErrorMessage = str ''Failed to fetch research papers. Please try again.''"

text \<open>\<open>parseInt(x) || 0\<close>: \<open>NaN\<close> and zero are falsy.\<close>

definition parsedCount :: "jsstring \<Rightarrow> number" where
  "parsedCount x =
     (case parseInt x of
        None \<Rightarrow> Finite 0
      | Some n \<Rightarrow> if n = Finite 0 then Finite 0 else n)"

text \<open>
  How the \<open>try\<close> block ends: it runs to its end, leaves through the \<open>return\<close> of the
  no-results branch, or throws. The block is returned with the state after the setter calls
  made so far and the URLs requested so far, in order.

  Reading \<open>searchData.esearchresult\<close> throws when the body is \<open>null\<close>; the optional chain
  starts after that read. Once the guard of the no-results branch has been passed, neither
  \<open>esearchresult\<close> nor \<open>idlist\<close> is \<open>undefined\<close> or \<open>null\<close>, so that the plain reads of
  \<open>searchData.esearchresult.idlist\<close> and \<open>searchData.esearchresult.count\<close> give what the
  optional reads give. \<open>ids.join(',')\<close> throws unless \<open>ids\<close> is an array; it is
  evaluated, inside the template of the detail URL, after the count has been stored.
\<close>

datatype completion = Normal | Return | Throw

definition tryBlock ::
  "'n platform \<Rightarrow> state \<Rightarrow> completion \<times> state \<times> jsstring list" where
  "tryBlock P s =
     (case encodeURIComponent (query s @ domainFilter) of
        None \<Rightarrow> (Throw, s, [])
      | Some searchTerm \<Rightarrow>
          let url1 = searchUrl searchTerm (maxResults s) (sortBy s) in
          (case fetch P url1 of
             None \<Rightarrow> (Throw, s, [url1])
           | Some searchResponse \<Rightarrow>
               (case json P searchResponse of
                  None \<Rightarrow> (Throw, s, [url1])
                | Some searchData \<Rightarrow>
                    if searchData = JNull then (Throw, s, [url1])
                    else
                      let esearchresult = getMember searchData (str ''esearchresult'');
                          ids = optMember esearchresult (str ''idlist'')
                      in
                      if \<not> lengthTruthy (numberIsZero P) ids
                      then (Return, s\<lparr>error := noResultsMessage, loading := False\<rparr>, [url1])
                      else
                        let count = optMember esearchresult (str ''count'');
                            s1 = s\<lparr>resultCount :=
                                     parsedCount (toStringOpt (numberToString P) count)\<rparr>
                        in
                        (case asArray ids of
                           None \<Rightarrow> (Throw, s1, [url1])
                         | Some xs \<Rightarrow>
                             let url2 = fetchUrl (arrayJoin (numberToString P) (str '','') xs) in
                             (case fetch P url2 of
                                None \<Rightarrow> (Throw, s1, [url1, url2])
                              | Some fetchResponse \<Rightarrow>
                                  (case text' P fetchResponse of
                                     None \<Rightarrow> (Throw, s1, [url1, url2])
                                   | Some xmlText \<Rightarrow>
                                       (Normal,
                                        s1\<lparr>papers := parsePapers (parseFromString P xmlText)\<rparr>,
                                        [url1, url2])))))))"

text \<open>
  The submit handler: the guard on the trimmed query, the three resets, the \<open>try\<close> block,
  the \<open>catch\<close> and the \<open>finally\<close>. It returns the state after the handler has finished
  and the requests it issued.
\<close>

definition searchPapers :: "'n platform \<Rightarrow> state \<Rightarrow> state \<times> jsstring list" where
  "searchPapers P s =
     (if trim (query s) = [] then (s, [])
      else
        let s0 = s\<lparr>loading := True, error := [], papers := []\<rparr>;
            (c, s1, requests) = tryBlock P s0;
            s2 = (if c = Throw then s1\<lparr>error := fetchErrorMessage\<rparr> else s1)
        in (s2\<lparr>loading := False\<rparr>, requests))"

section \<open>Rendering\<close>

text \<open>
  The part of the rendered tree that depends on the state. A conditional block
  \<open>c && <div>...</div>\<close> is an optional value; the authors block holds the joined names and
  the optional marker as its two children.
\<close>

record card =
  cardKey :: jsstring
  linkHref :: jsstring
  linkText :: jsstring
  paperAuthors :: "(jsstring \<times> jsstring option) option"
  metaJournal :: jsstring
  metaYear :: jsstring
  metaPmid :: jsstring
  metaDoi :: "jsstring option"
  paperAbstract :: jsstring

record view =
  buttonDisabled :: bool
  loadingBanner :: bool
  errorBox :: "jsstring option"
  stats :: "(number \<times> nat) option"
  results :: "card list"
  noResultsHint :: bool

definition renderAbstract :: "jsstring \<Rightarrow> jsstring" where
  "renderAbstract a = (if length a > 400 then take 400 a @ str ''...'' else a)"

definition renderAuthors :: "jsstring list \<Rightarrow> (jsstring \<times> jsstring option) option" where
  "renderAuthors as =
     (if length as > 0
      then Some (join (str '', '') as, if length as = 5 then Some (str '' et al.'') else None)
      else None)"

definition renderCard :: "paper \<Rightarrow> card" where
  "renderCard p =
     \<lparr> cardKey = id' p,
       linkHref = str ''https://pubmed.ncbi.nlm.nih.gov/'' @ pmid p @ str ''/'',
       linkText = title p,
       paperAuthors = renderAuthors (authors p),
       metaJournal = journal p,
       metaYear = year p,
       metaPmid = pmid p,
       metaDoi = (case doi p of None \<Rightarrow> None | Some d \<Rightarrow> if d = [] then None else Some d),
       paperAbstract = renderAbstract (abstract p) \<rparr>"

definition render :: "state \<Rightarrow> view" where
  "render s =
     \<lparr> buttonDisabled = loading s,
       loadingBanner = loading s,
       errorBox = (if error s = [] then None else Some (error s)),
       stats = (if positive (resultCount s) \<and> \<not> loading s
                then Some (resultCount s, length (papers s)) else None),
       results = (if length (papers s) > 0 then map renderCard (papers s) else []),
       noResultsHint = (\<not> loading s \<and> length (papers s) = 0 \<and> error s = []) \<rparr>"

section \<open>Notions used by the properties\<close>

text \<open>An article has a sub-element of a given name: some descendant is an element so named.\<close>

definition isElementNamed :: "jsstring \<Rightarrow> node \<Rightarrow> bool" where
  "isElementNamed T n =
     (case snd n of Element t as cs \<Rightarrow> t = T | Text d \<Rightarrow> False | Comment d \<Rightarrow> False)"

definition hasSubElement :: "jsstring \<Rightarrow> node \<Rightarrow> bool" where
  "hasSubElement T a = list_ex (isElementNamed T) (descendants (fst a) (snd a))"

text \<open>The authors an article's scan keeps: the display names of the authors that have a name.\<close>

definition observedAuthors :: "node \<Rightarrow> jsstring list" where
  "observedAuthors a = List.map_filter authorName (querySelectorAll (Type (str ''Author'')) a)"

text \<open>A card carries the marker when its authors block has the second child.\<close>

definition etAlShown :: "card \<Rightarrow> bool" where
  "etAlShown c =
     (case paperAuthors c of
        None \<Rightarrow> False
      | Some (names, marker) \<Rightarrow> marker = Some (str '' et al.''))"

text \<open>
  The \<open>idlist\<close> member of the \<open>esearchresult\<close> member of a decoded search response, where
  there is one, and the identifiers the response contains: the elements of that member when
  it is a list.
\<close>

definition idlistOf :: "'n json \<Rightarrow> 'n json option" where
  "idlistOf d =
     (case d of
        JObject ms \<Rightarrow>
          (case map_of (rev ms) (str ''esearchresult'') of
             Some (JObject rs) \<Rightarrow> map_of (rev rs) (str ''idlist'')
           | _ \<Rightarrow> None)
      | _ \<Rightarrow> None)"

definition identifiers :: "'n json \<Rightarrow> 'n json list" where
  "identifiers d = (case idlistOf d of Some (JArray xs) \<Rightarrow> xs | _ \<Rightarrow> [])"

text \<open>
  What a search that left the count alone ends in: no papers, the count it started with,
  the error message shown, and the statistics line rendered from the old count, with 0
  papers shown, exactly when that count is positive.
\<close>

definition keepsCount :: "state \<Rightarrow> state \<Rightarrow> bool" where
  "keepsCount s s' =
     (papers s' = []
      \<and> resultCount s' = resultCount s
      \<and> errorBox (render s') = Some (error s')
      \<and> stats (render s') = (if positive (resultCount s) then Some (resultCount s, 0) else None))"

text \<open>The state a submission ends in, and the requests it issued.\<close>

definition finalState :: "'n platform \<Rightarrow> state \<Rightarrow> state" where
  "finalState P s = fst (searchPapers P s)"

definition requestsIssued :: "'n platform \<Rightarrow> state \<Rightarrow> jsstring list" where
  "requestsIssued P s = snd (searchPapers P s)"

text \<open>The fixed domain filter after encoding.\<close>

definition encodedFilter :: jsstring where
  "encodedFilter =
     str ''%20AND%20(drug%20development%5BMeSH%20Terms%5D%20OR%20pharmaceutical%20development%20OR%20drug%20discovery)''"

section \<open>Example payloads and providers\<close>

definition elem :: "string \<Rightarrow> xml list \<Rightarrow> xml" where
  "elem t cs = Element (str t) [] cs"

definition exampleAuthor :: "string \<Rightarrow> string \<Rightarrow> xml" where
  "exampleAuthor fore family =
     elem ''Author'' [elem ''LastName'' [Text (str family)], elem ''ForeName'' [Text (str fore)]]"

text \<open>An article with an identifier and a title, and whatever else is passed in.\<close>

definition exampleArticle :: "xml list \<Rightarrow> xml" where
  "exampleArticle extra =
     elem ''PubmedArticle''
       [elem ''MedlineCitation''
          ([elem ''PMID'' [Text (str ''31452104'')],
            elem ''Article'' [elem ''ArticleTitle'' [Text (str ''Kinase inhibitors'')]]]
           @ extra)]"

definition sixAuthors :: "xml list" where
  "sixAuthors =
     [elem ''AuthorList''
        [exampleAuthor ''Ada'' ''Ito'', exampleAuthor ''Bo'' ''Chen'',
         exampleAuthor ''Cy'' ''Diaz'', exampleAuthor ''Di'' ''Egan'',
         exampleAuthor ''Ed'' ''Fox'', exampleAuthor ''Flo'' ''Gray'']]"

text \<open>An article without a title, and a payload holding it beside a complete one.\<close>

definition untitledArticle :: xml where
  "untitledArticle =
     elem ''PubmedArticle'' [elem ''MedlineCitation'' [elem ''PMID'' [Text (str ''42'')]]]"

definition examplePayload :: document where
  "examplePayload =
     [elem ''PubmedArticleSet'' [untitledArticle, exampleArticle sixAuthors]]"

text \<open>A paper whose abstract is 401 code units long.\<close>

definition longPaper :: paper where
  "longPaper =
     \<lparr> id' = str ''1'', title = str ''T'', authors = [], abstract = replicate 401 0x41,
       journal = str ''J'', year = str ''2020'', pmid = str ''1'', doi = None \<rparr>"

text \<open>
  A provider that answers by script: \<open>r1\<close> to the identifier search, \<open>r2\<close> to the detail
  fetch, \<open>d\<close> and \<open>t\<close> as the decoded bodies, \<open>doc\<close> as the parsed document. Its JSON
  numbers are natural numbers, written in decimal.
\<close>

function decimal :: "nat \<Rightarrow> jsstring" where
  "decimal n =
     (if n < 10 then [of_nat (48 + n)] else decimal (n div 10) @ [of_nat (48 + n mod 10)])"
  by pat_completeness auto
termination
  by (relation "measure (\<lambda>n. n)") auto

definition isSearchRequest :: "jsstring \<Rightarrow> bool" where
  "isSearchRequest u =
     (take 58 u = str ''https://eutils.ncbi.nlm.nih.gov/entrez/eutils/esearch.fcgi'')"

definition scripted ::
  "response option \<Rightarrow> nat json option \<Rightarrow> response option \<Rightarrow> jsstring option \<Rightarrow> document
   \<Rightarrow> nat platform" where
  "scripted r1 d r2 t doc =
     \<lparr> fetch = (\<lambda>u. if isSearchRequest u then r1 else r2),
       json = (\<lambda>r. d), text' = (\<lambda>r. t), parseFromString = (\<lambda>x. doc),
       numberToString = decimal, numberIsZero = (\<lambda>n. n = 0) \<rparr>"

text \<open>The provider's envelope: a list of identifiers and a count, both as strings.\<close>

definition envelope :: "string list \<Rightarrow> string \<Rightarrow> nat json" where
  "envelope ids c =
     JObject [(str ''header'', JObject []),
              (str ''esearchresult'',
               JObject [(str ''count'', JString (str c)),
                        (str ''idlist'', JArray (map (\<lambda>i. JString (str i)) ids))])]"

definition okResponse :: response where
  "okResponse = \<lparr> status = 200, body = [] \<rparr>"

definition errorResponse :: response where
  "errorResponse = \<lparr> status = 500, body = [] \<rparr>"

definition aspirinState :: state where
  "aspirinState = initialState\<lparr>query := str ''aspirin''\<rparr>"

definition aspirinUrl :: jsstring where
  "aspirinUrl =
     str ''https://eutils.ncbi.nlm.nih.gov/entrez/eutils/esearch.fcgi?db=pubmed&term=aspirin%20AND%20(drug%20development%5BMeSH%20Terms%5D%20OR%20pharmaceutical%20development%20OR%20drug%20discovery)&retmax=20&retmode=json&sort=relevance''"

definition aspirinTerm :: jsstring where
  "aspirinTerm = str ''aspirin'' @ encodedFilter"

text \<open>A state left by an earlier search that found 7 papers and showed one.\<close>

definition afterSearch :: state where
  "afterSearch = aspirinState\<lparr>resultCount := Finite 7, papers := [longPaper]\<rparr>"

text \<open>
  Providers: one that is unreachable; one whose search body does not decode; one whose
  search body is \<open>null\<close>; one that answers the search with status 429 and an error
  object; one whose \<open>idlist\<close> is a string and not a list; one whose detail
  fetch rejects after a search that reported \<open>c\<close> results; one whose detail body cannot be
  read; one that answers the detail fetch with status 500 and a body that is not XML; one
  that finds nothing; and one that answers both requests.
\<close>

definition offline :: "nat platform" where
  "offline = scripted None None None None []"

definition garbled :: "nat platform" where
  "garbled = scripted (Some okResponse) None None None []"

definition nullBody :: "nat platform" where
  "nullBody = scripted (Some okResponse) (Some JNull) (Some okResponse) (Some []) examplePayload"

definition rateLimited :: "nat platform" where
  "rateLimited =
     scripted (Some \<lparr>status = 429, body = []\<rparr>)
       (Some (JObject [(str ''error'', JString (str ''API rate limit exceeded''))]))
       (Some okResponse) (Some []) examplePayload"

definition idlistAsString :: "nat platform" where
  "idlistAsString =
     scripted (Some okResponse)
       (Some (JObject [(str ''esearchresult'',
                        JObject [(str ''count'', JString (str ''3'')),
                                 (str ''idlist'', JString (str ''31452104''))])]))
       (Some okResponse) (Some []) examplePayload"

definition detailOffline :: "string \<Rightarrow> nat platform" where
  "detailOffline c =
     scripted (Some okResponse) (Some (envelope [''31452104'', ''7''] c)) None None []"

definition detailUnreadable :: "nat platform" where
  "detailUnreadable =
     scripted (Some okResponse) (Some (envelope [''31452104'', ''7''] ''3''))
       (Some okResponse) None []"

definition detailServerError :: "nat platform" where
  "detailServerError =
     scripted (Some okResponse) (Some (envelope [''31452104''] ''1''))
       (Some errorResponse) (Some (str ''Internal Server Error''))
       [elem ''parsererror'' [Text (str ''error on line 1 at column 1'')]]"

definition noMatches :: "nat platform" where
  "noMatches =
     scripted (Some okResponse) (Some (envelope [] ''0'')) (Some okResponse) (Some [])
       examplePayload"

definition healthy :: "nat platform" where
  "healthy =
     scripted (Some okResponse) (Some (envelope [''42'', ''31452104''] ''2''))
       (Some okResponse) (Some []) examplePayload"

section \<open>The parser\<close>

lemma foldl_push:
  "foldl (\<lambda>acc a. case f a of None \<Rightarrow> acc | Some p \<Rightarrow> acc @ [p]) acc xs
     = acc @ List.map_filter f xs"
  by (induction xs arbitrary: acc) (simp_all add: List.map_filter_simps split: option.split)

lemma collectAuthors_eq: "collectAuthors a = observedAuthors a"
  unfolding collectAuthors_def observedAuthors_def by (simp add: foldl_push)

lemma parsePapers_eq:
  "parsePapers doc =
     List.map_filter parseArticle (documentQuerySelectorAll (Type (str ''PubmedArticle'')) doc)"
  unfolding parsePapers_def by (simp add: foldl_push)

lemma matches_Type: "matches (Type T) n = isElementNamed T n"
  by (cases n; cases "snd n") (simp_all add: isElementNamed_def)

lemma querySelector_Type_None:
  "(querySelector (Type T) a = None) = (\<not> hasSubElement T a)"
proof -
  have "(filter (matches (Type T)) xs = []) = (\<not> list_ex (isElementNamed T) xs)" for xs
    by (induction xs) (simp_all add: matches_Type)
  from this [of "descendants (fst a) (snd a)"]
  have "(querySelectorAll (Type T) a = []) = (\<not> hasSubElement T a)"
    by (simp add: querySelectorAll_def hasSubElement_def)
  moreover have "(querySelector (Type T) a = None) = (querySelectorAll (Type T) a = [])"
    by (simp add: querySelector_def split: list.split)
  ultimately show ?thesis by simp
qed

lemma parseArticle_Some_iff:
  "(parseArticle a \<noteq> None) =
     (querySelector (Type (str ''ArticleTitle'')) a \<noteq> None
      \<and> querySelector (Type (str ''PMID'')) a \<noteq> None)"
  by (simp add: parseArticle_def Let_def split: option.split)

lemma parseArticle_SomeD:
  assumes "parseArticle a = Some p"
  shows "\<exists>t e. querySelector (Type (str ''ArticleTitle'')) a = Some t
           \<and> querySelector (Type (str ''PMID'')) a = Some e
           \<and> id' p = textContent e \<and> pmid p = textContent e \<and> title p = textContent t
           \<and> authors p = take 5 (collectAuthors a)
           \<and> abstract p =
               textOr (querySelector (Type (str ''AbstractText'')) a)
                 (str ''No abstract available'')"
  using assms by (auto simp: parseArticle_def Let_def orElse_def split: option.splits)

text \<open>
  C1. An article yields a record exactly when it has both an \<open>ArticleTitle\<close> and a \<open>PMID\<close>
  sub-element; the parser's output is, in document order, the records of the articles that
  have both, and nothing for the others. The parser is a total function into lists of
  records: dropping an article is not an error.
\<close>

theorem record_iff_title_and_pmid:
  "(parseArticle a \<noteq> None) =
     (hasSubElement (str ''ArticleTitle'') a \<and> hasSubElement (str ''PMID'') a)
   \<and> parsePapers doc =
       map (the \<circ> parseArticle)
         (filter (\<lambda>a. hasSubElement (str ''ArticleTitle'') a \<and> hasSubElement (str ''PMID'') a)
            (documentQuerySelectorAll (Type (str ''PubmedArticle'')) doc))"
proof -
  have iff: "(parseArticle a \<noteq> None) =
     (hasSubElement (str ''ArticleTitle'') a \<and> hasSubElement (str ''PMID'') a)" for a
    using parseArticle_Some_iff [of a] querySelector_Type_None [of "str ''ArticleTitle''" a]
      querySelector_Type_None [of "str ''PMID''" a]
    by simp
  have "parsePapers doc = map (the \<circ> parseArticle)
      (filter (\<lambda>a. parseArticle a \<noteq> None)
         (documentQuerySelectorAll (Type (str ''PubmedArticle'')) doc))"
    by (simp add: parsePapers_eq List.map_filter_def)
  then show ?thesis using iff by simp
qed

theorem record_iff_title_and_pmid_witness:
  "hasSubElement (str ''PMID'') ([str ''PubmedArticleSet''], untitledArticle)
   \<and> \<not> hasSubElement (str ''ArticleTitle'') ([str ''PubmedArticleSet''], untitledArticle)
   \<and> parseArticle ([str ''PubmedArticleSet''], untitledArticle) = None
   \<and> length (documentQuerySelectorAll (Type (str ''PubmedArticle'')) examplePayload) = 2
   \<and> parsePapers examplePayload =
       [the (parseArticle ([str ''PubmedArticleSet''], exampleArticle sixAuthors))]"
proof -
  let ?u = "([str ''PubmedArticleSet''], untitledArticle)"
  have 1: "hasSubElement (str ''PMID'') ?u" by code_simp
  have 2: "\<not> hasSubElement (str ''ArticleTitle'') ?u" by code_simp
  from record_iff_title_and_pmid [of ?u examplePayload] 2
  have 3: "parseArticle ?u = None" by simp
  have 4: "length (documentQuerySelectorAll (Type (str ''PubmedArticle'')) examplePayload) = 2"
    by code_simp
  have 5: "map (the \<circ> parseArticle)
         (filter (\<lambda>a. hasSubElement (str ''ArticleTitle'') a \<and> hasSubElement (str ''PMID'') a)
            (documentQuerySelectorAll (Type (str ''PubmedArticle'')) examplePayload))
       = [the (parseArticle ([str ''PubmedArticleSet''], exampleArticle sixAuthors))]"
    by code_simp
  from record_iff_title_and_pmid [of ?u examplePayload] 5
  have 6: "parsePapers examplePayload =
       [the (parseArticle ([str ''PubmedArticleSet''], exampleArticle sixAuthors))]"
    by simp
  from 1 2 3 4 6 show ?thesis by blast
qed

text \<open>
  C2. The rendered abstract is the first 400 code units of the stored abstract followed by
  \<open>...\<close> exactly when the stored abstract is longer than 400; an abstract of length at most
  400 is rendered unchanged; an article without an \<open>AbstractText\<close> sub-element stores, and
  renders, the placeholder.
\<close>

theorem abstract_rendering:
  "(paperAbstract (renderCard p) = take 400 (abstract p) @ str ''...'') = (length (abstract p) > 400)
   \<and> (length (abstract r) \<le> 400 \<longrightarrow> paperAbstract (renderCard r) = abstract r)
   \<and> (parseArticle a = Some q \<and> querySelector (Type (str ''AbstractText'')) a = None \<longrightarrow>
        abstract q = str ''No abstract available''
        \<and> paperAbstract (renderCard q) = str ''No abstract available'')"
proof -
  have r: "paperAbstract (renderCard x) = renderAbstract (abstract x)" for x
    by (simp add: renderCard_def)
  have 1: "(renderAbstract s = take 400 s @ str ''...'') = (length s > 400)" for s
  proof (cases "length s > 400")
    case True
    then show ?thesis by (simp add: renderAbstract_def)
  next
    case False
    then have "take 400 s = s" by simp
    moreover have "str ''...'' \<noteq> []" by (simp add: str_def)
    ultimately show ?thesis using False by (simp add: renderAbstract_def)
  qed
  have 2: "length s \<le> 400 \<Longrightarrow> renderAbstract s = s" for s
    by (simp add: renderAbstract_def)
  have 3: "renderAbstract (str ''No abstract available'') = str ''No abstract available''"
    by (simp add: renderAbstract_def str_def)
  have 4: "parseArticle a = Some q \<Longrightarrow> querySelector (Type (str ''AbstractText'')) a = None \<Longrightarrow>
       abstract q = str ''No abstract available''"
    by (drule parseArticle_SomeD) (auto simp: textOr_def)
  show ?thesis using 1 2 3 4 by (simp add: r)
qed

theorem abstract_rendering_witness:
  "length (abstract longPaper) = 401
   \<and> paperAbstract (renderCard longPaper) = replicate 400 0x41 @ str ''...''
   \<and> parseArticle ([], exampleArticle []) = Some (the (parseArticle ([], exampleArticle [])))
   \<and> querySelector (Type (str ''AbstractText'')) ([], exampleArticle []) = None
   \<and> abstract (the (parseArticle ([], exampleArticle []))) = str ''No abstract available''
   \<and> paperAbstract (renderCard (the (parseArticle ([], exampleArticle []))))
       = str ''No abstract available''"
proof -
  let ?a = "([], exampleArticle [])"
  let ?q = "the (parseArticle ?a)"
  note inst = abstract_rendering [of longPaper ?q ?a ?q]
  have 1: "length (abstract longPaper) = 401" by (simp add: longPaper_def)
  have t: "take 400 (abstract longPaper) = replicate 400 0x41" by (simp add: longPaper_def)
  from inst 1 have 2: "paperAbstract (renderCard longPaper) = replicate 400 0x41 @ str ''...''"
    by (simp add: t)
  have 3: "parseArticle ?a = Some ?q" by code_simp
  have 4: "querySelector (Type (str ''AbstractText'')) ?a = None" by code_simp
  from inst 3 4 have 5: "abstract ?q = str ''No abstract available''
      \<and> paperAbstract (renderCard ?q) = str ''No abstract available''"
    by blast
  from 1 2 3 4 5 show ?thesis by blast
qed

text \<open>
  C3, as stated, fails on an article with six named authors: the card carries the marker
  although the scan kept six names, not five.
\<close>

theorem etAl_shown_for_six_authors:
  "parseArticle ([], exampleArticle sixAuthors) \<noteq> None
   \<and> length (observedAuthors ([], exampleArticle sixAuthors)) = 6
   \<and> \<not> (etAlShown (renderCard (the (parseArticle ([], exampleArticle sixAuthors))))
         = (length (observedAuthors ([], exampleArticle sixAuthors)) = 5))"
  by code_simp

text \<open>
  C3, amended. The record stores the first five of the names the scan kept, and the card
  carries the marker exactly when the stored list has five entries, that is, when the scan
  kept at least five names.
\<close>

theorem etAl_iff_at_least_five:
  assumes "parseArticle a = Some p"
  shows "authors p = take 5 (observedAuthors a)
     \<and> length (authors p) \<le> 5
     \<and> etAlShown (renderCard p) = (length (authors p) = 5)
     \<and> etAlShown (renderCard p) = (length (observedAuthors a) \<ge> 5)"
proof -
  from parseArticle_SomeD [OF assms]
  have a: "authors p = take 5 (observedAuthors a)" by (auto simp: collectAuthors_eq)
  have "str '' et al.'' \<noteq> []" by (simp add: str_def)
  then have "etAlShown (renderCard p) = (length (authors p) = 5)"
    by (auto simp: etAlShown_def renderCard_def renderAuthors_def)
  with a show ?thesis by auto
qed

theorem etAl_iff_at_least_five_witness:
  "parseArticle ([], exampleArticle sixAuthors)
     = Some (the (parseArticle ([], exampleArticle sixAuthors)))
   \<and> authors (the (parseArticle ([], exampleArticle sixAuthors)))
       = take 5 (observedAuthors ([], exampleArticle sixAuthors))
   \<and> length (authors (the (parseArticle ([], exampleArticle sixAuthors)))) \<le> 5
   \<and> etAlShown (renderCard (the (parseArticle ([], exampleArticle sixAuthors))))
       = (length (authors (the (parseArticle ([], exampleArticle sixAuthors)))) = 5)
   \<and> etAlShown (renderCard (the (parseArticle ([], exampleArticle sixAuthors))))
       = (length (observedAuthors ([], exampleArticle sixAuthors)) \<ge> 5)"
proof -
  have h: "parseArticle ([], exampleArticle sixAuthors)
     = Some (the (parseArticle ([], exampleArticle sixAuthors)))"
    by code_simp
  from h etAl_iff_at_least_five [OF h] show ?thesis by (rule conjI)
qed

text \<open>
  C10. A record's \<open>id\<close> and \<open>pmid\<close> are both the text of the article's first \<open>PMID\<close>
  sub-element (the empty string when that text is empty). The card shows them: its key is
  the record's \<open>id\<close>, its PMID line is the record's \<open>pmid\<close>, and its link is the article
  page of that \<open>pmid\<close>; so the three use one identifier. The cards rendered are the cards
  of the stored records.
\<close>

theorem id_equals_pmid:
  "(parseArticle a = Some p \<longrightarrow>
      id' p = pmid p
      \<and> (\<exists>e. querySelector (Type (str ''PMID'')) a = Some e
             \<and> id' p = textContent e \<and> pmid p = textContent e)
      \<and> cardKey (renderCard p) = id' p
      \<and> metaPmid (renderCard p) = pmid p
      \<and> linkHref (renderCard p) = str ''https://pubmed.ncbi.nlm.nih.gov/'' @ pmid p @ str ''/''
      \<and> cardKey (renderCard p) = metaPmid (renderCard p)
      \<and> linkHref (renderCard p)
          = str ''https://pubmed.ncbi.nlm.nih.gov/'' @ cardKey (renderCard p) @ str ''/'')
   \<and> (\<forall>q \<in> set (parsePapers doc).
         id' q = pmid q
         \<and> cardKey (renderCard q) = pmid q
         \<and> metaPmid (renderCard q) = pmid q
         \<and> linkHref (renderCard q) = str ''https://pubmed.ncbi.nlm.nih.gov/'' @ pmid q @ str ''/'')
   \<and> results (render s) = map renderCard (papers s)"
proof -
  have 1: "id' p = pmid p
      \<and> (\<exists>e. querySelector (Type (str ''PMID'')) a = Some e
             \<and> id' p = textContent e \<and> pmid p = textContent e)"
    if "parseArticle a = Some p" for a p
    using parseArticle_SomeD [OF that] by auto
  have 2: "id' q = pmid q" if "q \<in> set (parsePapers doc)" for q
  proof -
    from that obtain a where "parseArticle a = Some q"
      by (auto simp: parsePapers_eq List.map_filter_def)
    then show ?thesis using 1 by blast
  qed
  have 3: "cardKey (renderCard x) = id' x \<and> metaPmid (renderCard x) = pmid x
      \<and> linkHref (renderCard x) = str ''https://pubmed.ncbi.nlm.nih.gov/'' @ pmid x @ str ''/''"
    for x
    by (simp add: renderCard_def)
  have 4: "results (render s) = map renderCard (papers s)"
    by (simp add: render_def)
  have A: "id' p = pmid p
      \<and> (\<exists>e. querySelector (Type (str ''PMID'')) a = Some e
             \<and> id' p = textContent e \<and> pmid p = textContent e)
      \<and> cardKey (renderCard p) = id' p
      \<and> metaPmid (renderCard p) = pmid p
      \<and> linkHref (renderCard p) = str ''https://pubmed.ncbi.nlm.nih.gov/'' @ pmid p @ str ''/''
      \<and> cardKey (renderCard p) = metaPmid (renderCard p)
      \<and> linkHref (renderCard p)
          = str ''https://pubmed.ncbi.nlm.nih.gov/'' @ cardKey (renderCard p) @ str ''/''"
    if h: "parseArticle a = Some p"
  proof -
    from 1 [OF h] have i: "id' p = pmid p"
      by (rule conjunct1)
    from 1 [OF h] have e: "\<exists>e. querySelector (Type (str ''PMID'')) a = Some e
             \<and> id' p = textContent e \<and> pmid p = textContent e"
      by (rule conjunct2)
    from i 3 [of p] have k: "cardKey (renderCard p) = metaPmid (renderCard p)"
      "linkHref (renderCard p)
          = str ''https://pubmed.ncbi.nlm.nih.gov/'' @ cardKey (renderCard p) @ str ''/''"
      by simp_all
    note c = 3 [of p]
    from i e c [THEN conjunct1] c [THEN conjunct2, THEN conjunct1]
      c [THEN conjunct2, THEN conjunct2] k
    show ?thesis by (intro conjI)
  qed
  have B: "\<forall>q \<in> set (parsePapers doc).
         id' q = pmid q
         \<and> cardKey (renderCard q) = pmid q
         \<and> metaPmid (renderCard q) = pmid q
         \<and> linkHref (renderCard q) = str ''https://pubmed.ncbi.nlm.nih.gov/'' @ pmid q @ str ''/''"
    using 2 3 by simp
  from A have A': "parseArticle a = Some p \<longrightarrow>
      id' p = pmid p
      \<and> (\<exists>e. querySelector (Type (str ''PMID'')) a = Some e
             \<and> id' p = textContent e \<and> pmid p = textContent e)
      \<and> cardKey (renderCard p) = id' p
      \<and> metaPmid (renderCard p) = pmid p
      \<and> linkHref (renderCard p) = str ''https://pubmed.ncbi.nlm.nih.gov/'' @ pmid p @ str ''/''
      \<and> cardKey (renderCard p) = metaPmid (renderCard p)
      \<and> linkHref (renderCard p)
          = str ''https://pubmed.ncbi.nlm.nih.gov/'' @ cardKey (renderCard p) @ str ''/''"
    by (rule impI)
  from A' B 4 show ?thesis by (rule conjI [OF _ conjI])
qed

theorem id_equals_pmid_witness:
  "parseArticle ([], exampleArticle []) = Some (the (parseArticle ([], exampleArticle [])))
   \<and> id' (the (parseArticle ([], exampleArticle []))) = str ''31452104''
   \<and> pmid (the (parseArticle ([], exampleArticle []))) = str ''31452104''
   \<and> cardKey (renderCard (the (parseArticle ([], exampleArticle [])))) = str ''31452104''
   \<and> metaPmid (renderCard (the (parseArticle ([], exampleArticle [])))) = str ''31452104''
   \<and> linkHref (renderCard (the (parseArticle ([], exampleArticle []))))
       = str ''https://pubmed.ncbi.nlm.nih.gov/31452104/''
   \<and> parsePapers examplePayload \<noteq> []
   \<and> list_all (\<lambda>q. id' q = pmid q \<and> cardKey (renderCard q) = pmid q
                    \<and> metaPmid (renderCard q) = pmid q)
         (parsePapers examplePayload)
   \<and> results (render (aspirinState\<lparr>papers := parsePapers examplePayload\<rparr>))
       = map renderCard (parsePapers examplePayload)"
proof -
  let ?a = "([], exampleArticle [])"
  let ?q = "the (parseArticle ?a)"
  let ?s = "aspirinState\<lparr>papers := parsePapers examplePayload\<rparr>"
  note inst = id_equals_pmid [of ?a ?q examplePayload ?s]
  have 1: "parseArticle ?a = Some ?q" by code_simp
  have 2: "pmid ?q = str ''31452104''" by code_simp
  have u: "str ''https://pubmed.ncbi.nlm.nih.gov/'' @ str ''31452104'' @ str ''/''
      = str ''https://pubmed.ncbi.nlm.nih.gov/31452104/''"
    by (simp add: str_def)
  from inst 1 have "id' ?q = pmid ?q \<and> cardKey (renderCard ?q) = id' ?q
      \<and> metaPmid (renderCard ?q) = pmid ?q
      \<and> linkHref (renderCard ?q) = str ''https://pubmed.ncbi.nlm.nih.gov/'' @ pmid ?q @ str ''/''"
    by blast
  with 2 u have 3: "id' ?q = str ''31452104'' \<and> cardKey (renderCard ?q) = str ''31452104''
      \<and> metaPmid (renderCard ?q) = str ''31452104''
      \<and> linkHref (renderCard ?q) = str ''https://pubmed.ncbi.nlm.nih.gov/31452104/''"
    by simp
  have 4: "parsePapers examplePayload \<noteq> []" by code_simp
  from inst have 5: "list_all (\<lambda>q. id' q = pmid q \<and> cardKey (renderCard q) = pmid q
                    \<and> metaPmid (renderCard q) = pmid q) (parsePapers examplePayload)"
    by (simp add: list_all_iff)
  from inst have 6: "results (render ?s) = map renderCard (papers ?s)" by blast
  have 7: "papers ?s = parsePapers examplePayload" by simp
  from 1 2 3 4 5 6 7 show ?thesis by simp
qed

section \<open>The search handler\<close>

lemma trim_empty_iff: "(trim q = []) = list_all isWhiteSpace q"
proof -
  let ?d = "dropWhile isWhiteSpace q"
  have "(trim q = []) = (\<forall>c \<in> set ?d. isWhiteSpace c)"
    by (simp add: trim_def trimStart_def dropWhile_eq_Nil_conv)
  also have "\<dots> = (?d = [])"
  proof
    assume a: "\<forall>c \<in> set ?d. isWhiteSpace c"
    show "?d = []"
    proof (rule ccontr)
      assume n: "?d \<noteq> []"
      then have "\<not> isWhiteSpace (hd ?d)" by (rule hd_dropWhile)
      moreover from n have "hd ?d \<in> set ?d" by simp
      ultimately show False using a by blast
    qed
  next
    assume e: "?d = []"
    show "\<forall>c \<in> set ?d. isWhiteSpace c" unfolding e by simp
  qed
  also have "\<dots> = list_all isWhiteSpace q"
    by (simp add: dropWhile_eq_Nil_conv list_all_iff)
  finally show ?thesis .
qed

lemma encode_append:
  "f = [] \<or> \<not> isTrailingSurrogate (hd f) \<Longrightarrow>
   encodeURIComponent (q @ f) =
     (case encodeURIComponent q of
        None \<Rightarrow> None
      | Some e \<Rightarrow> map_option ((@) e) (encodeURIComponent f))"
proof (induction q rule: encodeURIComponent.induct)
  case 1
  show ?case by (cases "encodeURIComponent f") simp_all
next
  case (2 c cs)
  note prem = "2.prems"
  show ?case
  proof (cases "uriUnescaped c")
    case True
    with "2.IH"(1) prem show ?thesis
      by (cases "encodeURIComponent cs"; cases "encodeURIComponent f") simp_all
  next
    case nu: False
    show ?thesis
    proof (cases "isLeadingSurrogate c")
      case lead: True
      show ?thesis
      proof (cases cs)
        case Nil
        with nu lead prem show ?thesis by (cases f) simp_all
      next
        case (Cons d ds)
        show ?thesis
        proof (cases "isTrailingSurrogate d")
          case True
          with "2.IH"(2) [OF nu lead Cons True prem] nu lead Cons show ?thesis
            by (cases "encodeURIComponent ds"; cases "encodeURIComponent f") simp_all
        next
          case False
          with nu lead Cons show ?thesis by simp
        qed
      qed
    next
      case nl: False
      show ?thesis
      proof (cases "isTrailingSurrogate c")
        case True
        with nu nl show ?thesis by simp
      next
        case False
        with "2.IH"(3) [OF nu nl False prem] nu nl show ?thesis
          by (cases "encodeURIComponent cs"; cases "encodeURIComponent f") simp_all
      qed
    qed
  qed
qed

lemma encode_domainFilter: "encodeURIComponent domainFilter = Some encodedFilter"
  by code_simp

lemma hd_domainFilter: "\<not> isTrailingSurrogate (hd domainFilter)"
  by code_simp

lemma encode_query:
  "encodeURIComponent (q @ domainFilter) =
     (case encodeURIComponent q of None \<Rightarrow> None | Some e \<Rightarrow> Some (e @ encodedFilter))"
  using encode_append [of domainFilter q] hd_domainFilter
  by (simp add: encode_domainFilter split: option.split)

text \<open>The handler on a query that passes the guard, in terms of the \<open>try\<close> block.\<close>

lemma searchPapers_nonblank:
  assumes "trim (query s) \<noteq> []"
  shows "searchPapers P s =
     (case tryBlock P (s\<lparr>loading := True, error := [], papers := []\<rparr>) of
        (c, s1, requests) \<Rightarrow>
          ((if c = Throw then s1\<lparr>error := fetchErrorMessage\<rparr> else s1)\<lparr>loading := False\<rparr>,
           requests))"
  using assms by (simp add: searchPapers_def)

text \<open>The reads of the guard give the \<open>idlist\<close> member as \<open>idlistOf\<close> describes it.\<close>

lemma guard_reads_idlist:
  "optMember (getMember d (str ''esearchresult'')) (str ''idlist'') = idlistOf d"
  by (simp add: optMember_def getMember_def idlistOf_def split: json.split option.split)

lemma idlistOf_JNull: "idlistOf JNull = None"
  by (simp add: idlistOf_def)

lemma identifiers_nonempty:
  assumes "identifiers d \<noteq> []"
  shows "d \<noteq> JNull" and "idlistOf d = Some (JArray (identifiers d))"
proof -
  from assms obtain xs where x: "idlistOf d = Some (JArray xs)"
    by (auto simp: identifiers_def split: option.splits json.splits)
  then show "idlistOf d = Some (JArray (identifiers d))"
    by (simp add: identifiers_def)
  from x show "d \<noteq> JNull"
    by (auto simp: idlistOf_JNull)
qed

lemma lengthTruthy_no_list:
  "v = None \<or> v = Some JNull \<or> v = Some (JArray []) \<Longrightarrow> \<not> lengthTruthy z v"
  by (auto simp: lengthTruthy_def)

lemma lengthTruthy_list: "lengthTruthy z (Some (JArray xs)) = (xs \<noteq> [])"
  by (simp add: lengthTruthy_def)

lemma asArray_list: "asArray (Some (JArray xs)) = Some xs"
  by (simp add: asArray_def)

text \<open>The \<open>try\<close> block, by the answers of the platform.\<close>

lemma tryBlock_encode_throws:
  "encodeURIComponent (query s @ domainFilter) = None \<Longrightarrow> tryBlock P s = (Throw, s, [])"
  by (simp add: tryBlock_def)

lemma tryBlock_search_rejects:
  "encodeURIComponent (query s @ domainFilter) = Some t \<Longrightarrow>
   fetch P (searchUrl t (maxResults s) (sortBy s)) = None \<Longrightarrow>
   tryBlock P s = (Throw, s, [searchUrl t (maxResults s) (sortBy s)])"
  by (simp add: tryBlock_def Let_def)

lemma tryBlock_json_rejects:
  "encodeURIComponent (query s @ domainFilter) = Some t \<Longrightarrow>
   fetch P (searchUrl t (maxResults s) (sortBy s)) = Some r \<Longrightarrow> json P r = None \<Longrightarrow>
   tryBlock P s = (Throw, s, [searchUrl t (maxResults s) (sortBy s)])"
  by (simp add: tryBlock_def Let_def)

lemma tryBlock_null_body:
  "encodeURIComponent (query s @ domainFilter) = Some t \<Longrightarrow>
   fetch P (searchUrl t (maxResults s) (sortBy s)) = Some r \<Longrightarrow> json P r = Some JNull \<Longrightarrow>
   tryBlock P s = (Throw, s, [searchUrl t (maxResults s) (sortBy s)])"
  by (simp add: tryBlock_def Let_def)

lemma tryBlock_decoded:
  assumes "encodeURIComponent (query s @ domainFilter) = Some t"
    and "fetch P (searchUrl t (maxResults s) (sortBy s)) = Some r"
    and "json P r = Some d"
    and "d \<noteq> JNull"
  shows "tryBlock P s =
     (if \<not> lengthTruthy (numberIsZero P) (idlistOf d)
      then (Return, s\<lparr>error := noResultsMessage, loading := False\<rparr>,
            [searchUrl t (maxResults s) (sortBy s)])
      else
        (case asArray (idlistOf d) of
           None \<Rightarrow>
             (Throw,
              s\<lparr>resultCount := parsedCount (toStringOpt (numberToString P)
                   (optMember (getMember d (str ''esearchresult'')) (str ''count'')))\<rparr>,
              [searchUrl t (maxResults s) (sortBy s)])
         | Some xs \<Rightarrow>
             (case fetch P (fetchUrl (arrayJoin (numberToString P) (str '','') xs)) of
                None \<Rightarrow>
                  (Throw,
                   s\<lparr>resultCount := parsedCount (toStringOpt (numberToString P)
                        (optMember (getMember d (str ''esearchresult'')) (str ''count'')))\<rparr>,
                   [searchUrl t (maxResults s) (sortBy s),
                    fetchUrl (arrayJoin (numberToString P) (str '','') xs)])
              | Some r2 \<Rightarrow>
                  (case text' P r2 of
                     None \<Rightarrow>
                       (Throw,
                        s\<lparr>resultCount := parsedCount (toStringOpt (numberToString P)
                             (optMember (getMember d (str ''esearchresult'')) (str ''count'')))\<rparr>,
                        [searchUrl t (maxResults s) (sortBy s),
                         fetchUrl (arrayJoin (numberToString P) (str '','') xs)])
                   | Some x \<Rightarrow>
                       (Normal,
                        s\<lparr>resultCount := parsedCount (toStringOpt (numberToString P)
                             (optMember (getMember d (str ''esearchresult'')) (str ''count''))),
                          papers := parsePapers (parseFromString P x)\<rparr>,
                        [searchUrl t (maxResults s) (sortBy s),
                         fetchUrl (arrayJoin (numberToString P) (str '','') xs)])))))"
  using assms by (simp add: tryBlock_def Let_def guard_reads_idlist split: option.split)

lemma tryBlock_no_list:
  assumes "encodeURIComponent (query s @ domainFilter) = Some t"
    and "fetch P (searchUrl t (maxResults s) (sortBy s)) = Some r"
    and "json P r = Some d"
    and "d \<noteq> JNull"
    and "idlistOf d = None \<or> idlistOf d = Some JNull \<or> idlistOf d = Some (JArray [])"
  shows "tryBlock P s =
     (Return, s\<lparr>error := noResultsMessage, loading := False\<rparr>,
      [searchUrl t (maxResults s) (sortBy s)])"
  using lengthTruthy_no_list [OF assms(5), of "numberIsZero P"]
  by (simp add: tryBlock_decoded [OF assms(1-4)])

lemma tryBlock_identifiers:
  assumes "encodeURIComponent (query s @ domainFilter) = Some t"
    and "fetch P (searchUrl t (maxResults s) (sortBy s)) = Some r"
    and "json P r = Some d"
    and "identifiers d \<noteq> []"
  shows "\<exists>n. tryBlock P s =
     (case fetch P (fetchUrl (arrayJoin (numberToString P) (str '','') (identifiers d))) of
        None \<Rightarrow>
          (Throw, s\<lparr>resultCount := n\<rparr>,
           [searchUrl t (maxResults s) (sortBy s),
            fetchUrl (arrayJoin (numberToString P) (str '','') (identifiers d))])
      | Some r2 \<Rightarrow>
          (case text' P r2 of
             None \<Rightarrow>
               (Throw, s\<lparr>resultCount := n\<rparr>,
                [searchUrl t (maxResults s) (sortBy s),
                 fetchUrl (arrayJoin (numberToString P) (str '','') (identifiers d))])
           | Some x \<Rightarrow>
               (Normal,
                s\<lparr>resultCount := n, papers := parsePapers (parseFromString P x)\<rparr>,
                [searchUrl t (maxResults s) (sortBy s),
                 fetchUrl (arrayJoin (numberToString P) (str '','') (identifiers d))])))"
proof -
  note i = identifiers_nonempty [OF assms(4)]
  show ?thesis
    by (rule exI [of _ "parsedCount (toStringOpt (numberToString P)
          (optMember (getMember d (str ''esearchresult'')) (str ''count'')))"])
      (simp add: tryBlock_decoded [OF assms(1-3) i(1)] i(2) lengthTruthy_list asArray_list
        assms(4) split: option.split)
qed

text \<open>Every run of the \<open>try\<close> block issues the search request first, if it issues any.\<close>

lemma tryBlock_requests:
  "encodeURIComponent (query s @ domainFilter) = Some t \<Longrightarrow>
   take 1 (snd (snd (tryBlock P s))) = [searchUrl t (maxResults s) (sortBy s)]"
  by (simp add: tryBlock_def Let_def split: option.splits)

text \<open>
  A run that leaves through the \<open>return\<close> has set the no-results message and nothing
  else; a run that reaches the end has not touched the error message.
\<close>

lemma tryBlock_shape:
  "\<exists>c s' rs. tryBlock P s = (c, s', rs)
     \<and> (c = Return \<longrightarrow> s' = s\<lparr>error := noResultsMessage, loading := False\<rparr>)
     \<and> (c = Normal \<longrightarrow> error s' = error s)"
  by (simp add: tryBlock_def Let_def split: option.split)

lemma tryBlock_Return:
  "fst (tryBlock P s) = Return \<Longrightarrow>
   fst (snd (tryBlock P s)) = s\<lparr>error := noResultsMessage, loading := False\<rparr>"
  using tryBlock_shape [of P s] by auto

lemma tryBlock_Normal:
  "fst (tryBlock P s) = Normal \<Longrightarrow> error (fst (snd (tryBlock P s))) = error s"
  using tryBlock_shape [of P s] by auto

lemma requestsIssued_nonblank:
  "trim (query s) \<noteq> [] \<Longrightarrow>
   requestsIssued P s = snd (snd (tryBlock P (s\<lparr>loading := True, error := [], papers := []\<rparr>)))"
  by (simp add: requestsIssued_def searchPapers_nonblank split_beta)

lemma finalState_nonblank:
  "trim (query s) \<noteq> [] \<Longrightarrow>
   finalState P s =
     (if fst (tryBlock P (s\<lparr>loading := True, error := [], papers := []\<rparr>)) = Throw
      then (fst (snd (tryBlock P (s\<lparr>loading := True, error := [], papers := []\<rparr>))))
             \<lparr>error := fetchErrorMessage\<rparr>
      else fst (snd (tryBlock P (s\<lparr>loading := True, error := [], papers := []\<rparr>))))
     \<lparr>loading := False\<rparr>"
  by (simp add: finalState_def searchPapers_nonblank split_beta)

lemma messages_nonempty: "noResultsMessage \<noteq> []" "fetchErrorMessage \<noteq> []"
  by (simp_all add: noResultsMessage_def fetchErrorMessage_def str_def)

lemma messages_differ: "noResultsMessage \<noteq> fetchErrorMessage"
  by (simp add: noResultsMessage_def fetchErrorMessage_def str_def)

text \<open>A search whose \<open>try\<close> block throws or returns with the state it was given.\<close>

lemma keepsCount_thrown:
  assumes "trim (query s) \<noteq> []"
    and "tryBlock P (s\<lparr>loading := True, error := [], papers := []\<rparr>)
           = (Throw, s\<lparr>loading := True, error := [], papers := []\<rparr>, rs)"
  shows "error (finalState P s) = fetchErrorMessage \<and> keepsCount s (finalState P s)"
  using assms by (simp add: finalState_nonblank keepsCount_def render_def messages_nonempty)

lemma keepsCount_returned:
  assumes "trim (query s) \<noteq> []"
    and "fst (tryBlock P (s\<lparr>loading := True, error := [], papers := []\<rparr>)) = Return"
  shows "error (finalState P s) = noResultsMessage \<and> keepsCount s (finalState P s)"
  using assms(1) tryBlock_Return [OF assms(2)] assms(2)
  by (simp add: finalState_nonblank keepsCount_def render_def messages_nonempty)

text \<open>
  C4, as stated, fails on a detail fetch that is answered with status 500: the status is
  never read, the body is parsed like any other, and the search ends without an error
  message.
\<close>

theorem server_error_status_is_not_FetchError:
  "fetch detailServerError (fetchUrl (str ''31452104'')) = Some errorResponse
   \<and> status errorResponse = 500
   \<and> requestsIssued detailServerError aspirinState = [aspirinUrl, fetchUrl (str ''31452104'')]
   \<and> error (finalState detailServerError aspirinState) = []
   \<and> error (finalState detailServerError aspirinState) \<noteq> fetchErrorMessage"
  by code_simp

text \<open>
  C4, amended. Whenever one of the awaited platform calls rejects (the identifier-search
  fetch, the decoding of its JSON body, the detail fetch, or the reading of its text body),
  the search ends with the generic retry message, no papers and the loading flag cleared.
  The HTTP status of a response is not inspected.
\<close>

theorem rejection_gives_FetchError:
  assumes "trim (query s) \<noteq> []"
    and "encodeURIComponent (query s @ domainFilter) = Some t"
  shows
    "(fetch P (searchUrl t (maxResults s) (sortBy s)) = None \<longrightarrow>
        error (finalState P s) = fetchErrorMessage \<and> papers (finalState P s) = []
        \<and> \<not> loading (finalState P s))
     \<and> (fetch P (searchUrl t (maxResults s) (sortBy s)) = Some r \<and> json P r = None \<longrightarrow>
        error (finalState P s) = fetchErrorMessage \<and> papers (finalState P s) = []
        \<and> \<not> loading (finalState P s))
     \<and> (fetch P (searchUrl t (maxResults s) (sortBy s)) = Some r \<and> json P r = Some d
        \<and> identifiers d \<noteq> []
        \<and> fetch P (fetchUrl (arrayJoin (numberToString P) (str '','') (identifiers d))) = None
        \<longrightarrow>
        error (finalState P s) = fetchErrorMessage \<and> papers (finalState P s) = []
        \<and> \<not> loading (finalState P s))
     \<and> (fetch P (searchUrl t (maxResults s) (sortBy s)) = Some r \<and> json P r = Some d
        \<and> identifiers d \<noteq> []
        \<and> fetch P (fetchUrl (arrayJoin (numberToString P) (str '','') (identifiers d))) = Some r2
        \<and> text' P r2 = None \<longrightarrow>
        error (finalState P s) = fetchErrorMessage \<and> papers (finalState P s) = []
        \<and> \<not> loading (finalState P s))"
proof -
  let ?s0 = "s\<lparr>loading := True, error := [], papers := []\<rparr>"
  let ?u = "searchUrl t (maxResults s) (sortBy s)"
  let ?v = "fetchUrl (arrayJoin (numberToString P) (str '','') (identifiers d))"
  let ?R = "error (finalState P s) = fetchErrorMessage \<and> papers (finalState P s) = []
        \<and> \<not> loading (finalState P s)"
  have enc: "encodeURIComponent (query ?s0 @ domainFilter) = Some t"
    using assms(2) by simp
  have thrown: ?R if "tryBlock P ?s0 = (Throw, s1, rs)" "papers s1 = []" for s1 rs
    using that assms(1) by (simp add: finalState_nonblank)
  have 1: ?R if "fetch P ?u = None"
    using tryBlock_search_rejects [OF enc, of P] that by (intro thrown [of ?s0]) simp_all
  have 2: ?R if "fetch P ?u = Some r" "json P r = None"
    using tryBlock_json_rejects [OF enc, of P r] that by (intro thrown [of ?s0]) simp_all
  have 3: ?R if f: "fetch P ?u = Some r" and j: "json P r = Some d" and i: "identifiers d \<noteq> []"
      and x: "fetch P ?v = None \<or> (fetch P ?v = Some r2 \<and> text' P r2 = None)"
  proof -
    from f have f': "fetch P (searchUrl t (maxResults ?s0) (sortBy ?s0)) = Some r" by simp
    from tryBlock_identifiers [OF enc f' j i] x
    obtain n where "tryBlock P ?s0 = (Throw, ?s0\<lparr>resultCount := n\<rparr>, [?u, ?v])"
      by auto
    then show ?thesis by (rule thrown) simp
  qed
  from 1 2 3 show ?thesis by blast
qed

theorem rejection_gives_FetchError_witness:
  "trim (query aspirinState) \<noteq> []
   \<and> encodeURIComponent (query aspirinState @ domainFilter) = Some aspirinTerm
   \<and> fetch offline (searchUrl aspirinTerm (maxResults aspirinState) (sortBy aspirinState)) = None
   \<and> error (finalState offline aspirinState) = fetchErrorMessage
   \<and> fetch garbled (searchUrl aspirinTerm (maxResults aspirinState) (sortBy aspirinState))
       = Some okResponse
   \<and> json garbled okResponse = None
   \<and> error (finalState garbled aspirinState) = fetchErrorMessage
   \<and> fetch (detailOffline ''3'')
         (searchUrl aspirinTerm (maxResults aspirinState) (sortBy aspirinState))
       = Some okResponse
   \<and> json (detailOffline ''3'') okResponse = Some (envelope [''31452104'', ''7''] ''3'')
   \<and> identifiers (envelope [''31452104'', ''7''] ''3'')
       = [JString (str ''31452104''), JString (str ''7'')]
   \<and> fetch (detailOffline ''3'')
         (fetchUrl (arrayJoin (numberToString (detailOffline ''3'')) (str '','')
            (identifiers (envelope [''31452104'', ''7''] ''3'')))) = None
   \<and> error (finalState (detailOffline ''3'') aspirinState) = fetchErrorMessage
   \<and> fetch detailUnreadable
         (searchUrl aspirinTerm (maxResults aspirinState) (sortBy aspirinState))
       = Some okResponse
   \<and> json detailUnreadable okResponse = Some (envelope [''31452104'', ''7''] ''3'')
   \<and> fetch detailUnreadable
         (fetchUrl (arrayJoin (numberToString detailUnreadable) (str '','')
            (identifiers (envelope [''31452104'', ''7''] ''3'')))) = Some okResponse
   \<and> text' detailUnreadable okResponse = None
   \<and> error (finalState detailUnreadable aspirinState) = fetchErrorMessage"
proof -
  let ?u = "searchUrl aspirinTerm (maxResults aspirinState) (sortBy aspirinState)"
  let ?d = "envelope [''31452104'', ''7''] ''3''"
  have nb: "trim (query aspirinState) \<noteq> []" by code_simp
  have enc: "encodeURIComponent (query aspirinState @ domainFilter) = Some aspirinTerm"
    by code_simp
  note inst = rejection_gives_FetchError [OF nb enc]
  have a1: "fetch offline ?u = None" by code_simp
  from inst [of offline] a1
  have a2: "error (finalState offline aspirinState) = fetchErrorMessage" by blast
  have b1: "fetch garbled ?u = Some okResponse" by code_simp
  have b2: "json garbled okResponse = None" by (simp add: garbled_def scripted_def)
  from inst [of garbled okResponse] b1 b2
  have b3: "error (finalState garbled aspirinState) = fetchErrorMessage" by blast
  have c1: "fetch (detailOffline ''3'') ?u = Some okResponse" by code_simp
  have c2: "json (detailOffline ''3'') okResponse = Some ?d"
    by (simp add: detailOffline_def scripted_def)
  have c3: "identifiers ?d = [JString (str ''31452104''), JString (str ''7'')]"
    by code_simp
  have c3': "identifiers ?d \<noteq> []" by (simp add: c3)
  have c4: "fetch (detailOffline ''3'')
      (fetchUrl (arrayJoin (numberToString (detailOffline ''3'')) (str '','') (identifiers ?d)))
      = None"
    by code_simp
  from inst [of "detailOffline ''3''" okResponse ?d] c1 c2 c3' c4
  have c5: "error (finalState (detailOffline ''3'') aspirinState) = fetchErrorMessage" by blast
  have d1: "fetch detailUnreadable ?u = Some okResponse" by code_simp
  have d2: "json detailUnreadable okResponse = Some ?d"
    by (simp add: detailUnreadable_def scripted_def)
  have d4: "fetch detailUnreadable
      (fetchUrl (arrayJoin (numberToString detailUnreadable) (str '','') (identifiers ?d)))
      = Some okResponse"
    by code_simp
  have d5: "text' detailUnreadable okResponse = None"
    by (simp add: detailUnreadable_def scripted_def)
  from inst [of detailUnreadable okResponse ?d okResponse] d1 d2 c3' d4 d5
  have d6: "error (finalState detailUnreadable aspirinState) = fetchErrorMessage" by blast
  from nb enc a1 a2 b1 b2 b3 c1 c2 c3 c4 c5 d1 d2 d4 d5 d6 show ?thesis by blast
qed

text \<open>
  C5, as stated, fails on a search response whose body is the JSON value \<open>null\<close>: it
  contains no identifier, but reading \<open>searchData.esearchresult\<close> throws, and the search
  ends with the generic retry message, not with the no-results message.
\<close>

theorem null_body_gives_FetchError:
  "fetch nullBody aspirinUrl = Some okResponse
   \<and> json nullBody okResponse = Some JNull
   \<and> identifiers (JNull :: nat json) = []
   \<and> requestsIssued nullBody aspirinState = [aspirinUrl]
   \<and> error (finalState nullBody aspirinState) = fetchErrorMessage
   \<and> error (finalState nullBody aspirinState) \<noteq> noResultsMessage"
  by code_simp

text \<open>
  C5, amended. When the identifier-search response decodes to a JSON value other than
  \<open>null\<close> in which \<open>esearchresult.idlist\<close> is absent, \<open>null\<close> or an empty list, the search
  ends with the no-results message, which starts with \<open>No research papers found\<close>; the
  search request is the only request issued, and no papers are stored.
\<close>

theorem no_identifiers_gives_NoResults:
  assumes "trim (query s) \<noteq> []"
    and "encodeURIComponent (query s @ domainFilter) = Some t"
    and "fetch P (searchUrl t (maxResults s) (sortBy s)) = Some r"
    and "json P r = Some d"
    and "d \<noteq> JNull"
    and "idlistOf d = None \<or> idlistOf d = Some JNull \<or> idlistOf d = Some (JArray [])"
  shows "error (finalState P s) = noResultsMessage
     \<and> take 24 (error (finalState P s)) = str ''No research papers found''
     \<and> requestsIssued P s = [searchUrl t (maxResults s) (sortBy s)]
     \<and> papers (finalState P s) = []
     \<and> \<not> loading (finalState P s)"
proof -
  let ?s0 = "s\<lparr>loading := True, error := [], papers := []\<rparr>"
  have enc: "encodeURIComponent (query ?s0 @ domainFilter) = Some t"
    using assms(2) by simp
  from assms(3) have f: "fetch P (searchUrl t (maxResults ?s0) (sortBy ?s0)) = Some r"
    by simp
  have "take 24 noResultsMessage = str ''No research papers found''"
    by (simp add: noResultsMessage_def str_def)
  with tryBlock_no_list [OF enc f assms(4) assms(5) assms(6)] assms(1) show ?thesis
    by (simp add: finalState_nonblank requestsIssued_nonblank)
qed

theorem no_identifiers_gives_NoResults_witness:
  "trim (query aspirinState) \<noteq> []
   \<and> encodeURIComponent (query aspirinState @ domainFilter) = Some aspirinTerm
   \<and> fetch noMatches (searchUrl aspirinTerm (maxResults aspirinState) (sortBy aspirinState))
       = Some okResponse
   \<and> json noMatches okResponse = Some (envelope [] ''0'')
   \<and> envelope [] ''0'' \<noteq> JNull
   \<and> idlistOf (envelope [] ''0'') = Some (JArray [])
   \<and> error (finalState noMatches aspirinState) = noResultsMessage
   \<and> take 24 (error (finalState noMatches aspirinState)) = str ''No research papers found''
   \<and> requestsIssued noMatches aspirinState
       = [searchUrl aspirinTerm (maxResults aspirinState) (sortBy aspirinState)]
   \<and> papers (finalState noMatches aspirinState) = []
   \<and> \<not> loading (finalState noMatches aspirinState)
   \<and> fetch rateLimited (searchUrl aspirinTerm (maxResults aspirinState) (sortBy aspirinState))
       = Some \<lparr>status = 429, body = []\<rparr>
   \<and> json rateLimited \<lparr>status = 429, body = []\<rparr>
       = Some (JObject [(str ''error'', JString (str ''API rate limit exceeded''))])
   \<and> idlistOf (JObject [(str ''error'', JString (str ''API rate limit exceeded'') :: nat json)])
       = None
   \<and> error (finalState rateLimited aspirinState) = noResultsMessage
   \<and> requestsIssued rateLimited aspirinState
       = [searchUrl aspirinTerm (maxResults aspirinState) (sortBy aspirinState)]"
proof -
  let ?u = "searchUrl aspirinTerm (maxResults aspirinState) (sortBy aspirinState)"
  let ?e = "JObject [(str ''error'', JString (str ''API rate limit exceeded'') :: nat json)]"
  have nb: "trim (query aspirinState) \<noteq> []" by code_simp
  have enc: "encodeURIComponent (query aspirinState @ domainFilter) = Some aspirinTerm"
    by code_simp
  have f: "fetch noMatches ?u = Some okResponse" by code_simp
  have j: "json noMatches okResponse = Some (envelope [] ''0'')"
    by (simp add: noMatches_def scripted_def)
  have n: "envelope [] ''0'' \<noteq> JNull" by (simp add: envelope_def)
  have i: "idlistOf (envelope [] ''0'') = Some (JArray [])" by code_simp
  have i': "idlistOf (envelope [] ''0'') = None \<or> idlistOf (envelope [] ''0'') = Some JNull
      \<or> idlistOf (envelope [] ''0'') = Some (JArray [])"
    by (simp add: i)
  note a = no_identifiers_gives_NoResults [OF nb enc f j n i']
  have f2: "fetch rateLimited ?u = Some \<lparr>status = 429, body = []\<rparr>" by code_simp
  have j2: "json rateLimited \<lparr>status = 429, body = []\<rparr> = Some ?e"
    by (simp add: rateLimited_def scripted_def)
  have n2: "?e \<noteq> JNull" by simp
  have i2: "idlistOf ?e = None" by code_simp
  have i2': "idlistOf ?e = None \<or> idlistOf ?e = Some JNull \<or> idlistOf ?e = Some (JArray [])"
    by (simp add: i2)
  note b = no_identifiers_gives_NoResults [OF nb enc f2 j2 n2 i2']
  from nb enc f j n i a f2 j2 i2 b show ?thesis by blast
qed

text \<open>
  C6. Submitting a query that is empty or consists of white space only issues no request
  and leaves the whole state as it was.
\<close>

theorem blank_query_is_noop:
  "list_all isWhiteSpace (query s) \<Longrightarrow> searchPapers P s = (s, [])"
  by (simp add: searchPapers_def trim_empty_iff)

theorem blank_query_is_noop_witness:
  "list_all isWhiteSpace (query (afterSearch\<lparr>query := [0x20, 0x09, 0xA0]\<rparr>))
   \<and> searchPapers healthy (afterSearch\<lparr>query := [0x20, 0x09, 0xA0]\<rparr>)
       = (afterSearch\<lparr>query := [0x20, 0x09, 0xA0]\<rparr>, [])
   \<and> list_all isWhiteSpace (query initialState)
   \<and> searchPapers healthy initialState = (initialState, [])"
proof -
  let ?s = "afterSearch\<lparr>query := [0x20, 0x09, 0xA0]\<rparr>"
  have 1: "list_all isWhiteSpace (query ?s)" by (simp add: isWhiteSpace_def)
  have 2: "list_all isWhiteSpace (query initialState)" by (simp add: initialState_def)
  from 1 blank_query_is_noop [OF 1] 2 blank_query_is_noop [OF 2] show ?thesis
    by (intro conjI)
qed

text \<open>
  C7. The count of the failed attempt is rendered: with the initial state, an identifier
  search that reports 3 results and a detail fetch that rejects, the search ends with the
  generic retry message and no cards, and the statistics line shows the 3 of that attempt's
  first call beside the error.
\<close>

theorem failed_detail_fetch_shows_count:
  "resultCount aspirinState = Finite 0
   \<and> error (finalState (detailOffline ''3'') aspirinState) = fetchErrorMessage
   \<and> results (render (finalState (detailOffline ''3'') aspirinState)) = []
   \<and> errorBox (render (finalState (detailOffline ''3'') aspirinState)) = Some fetchErrorMessage
   \<and> stats (render (finalState (detailOffline ''3'') aspirinState)) = Some (Finite 3, 0)"
  by code_simp

text \<open>
  C8, as stated, fails on a query with an unpaired surrogate: it passes the guard, but
  \<open>encodeURIComponent\<close> throws, so that no request is issued at all.
\<close>

theorem unpaired_surrogate_issues_no_request:
  "trim (query (initialState\<lparr>query := [0xD800]\<rparr>)) \<noteq> []
   \<and> encodeURIComponent (query (initialState\<lparr>query := [0xD800]\<rparr>) @ domainFilter) = None
   \<and> requestsIssued healthy (initialState\<lparr>query := [0xD800]\<rparr>) = []
   \<and> error (finalState healthy (initialState\<lparr>query := [0xD800]\<rparr>)) = fetchErrorMessage"
  by code_simp

text \<open>
  C8, amended. For every query that is not blank and has no unpaired surrogate, the term
  of the search request is the encoding of the query followed by the domain filter, which
  is the encoded query followed by the encoded filter; the search request is the first
  request issued.
\<close>

theorem search_term_encodes_query_and_filter:
  assumes "trim (query s) \<noteq> []"
    and "encodeURIComponent (query s) = Some e"
  shows "encodeURIComponent (query s @ domainFilter) = Some (e @ encodedFilter)
     \<and> encodeURIComponent domainFilter = Some encodedFilter
     \<and> take 1 (requestsIssued P s) = [searchUrl (e @ encodedFilter) (maxResults s) (sortBy s)]"
proof -
  let ?s0 = "s\<lparr>loading := True, error := [], papers := []\<rparr>"
  have enc: "encodeURIComponent (query s @ domainFilter) = Some (e @ encodedFilter)"
    by (simp add: encode_query assms(2))
  then have "encodeURIComponent (query ?s0 @ domainFilter) = Some (e @ encodedFilter)"
    by simp
  from tryBlock_requests [OF this, of P] assms(1)
  have "take 1 (requestsIssued P s) = [searchUrl (e @ encodedFilter) (maxResults s) (sortBy s)]"
    by (simp add: requestsIssued_nonblank)
  with enc show ?thesis by (simp add: encode_domainFilter)
qed

theorem search_term_encodes_query_and_filter_witness:
  "trim (query aspirinState) \<noteq> []
   \<and> encodeURIComponent (query aspirinState) = Some (str ''aspirin'')
   \<and> encodeURIComponent (query aspirinState @ domainFilter) = Some (str ''aspirin'' @ encodedFilter)
   \<and> encodeURIComponent domainFilter = Some encodedFilter
   \<and> take 1 (requestsIssued healthy aspirinState)
       = [searchUrl (str ''aspirin'' @ encodedFilter) (maxResults aspirinState)
            (sortBy aspirinState)]"
proof -
  have nb: "trim (query aspirinState) \<noteq> []" by code_simp
  have e: "encodeURIComponent (query aspirinState) = Some (str ''aspirin'')" by code_simp
  from nb e search_term_encodes_query_and_filter [OF nb e, of healthy] show ?thesis
    by (intro conjI) blast+
qed

text \<open>
  C9, as stated, fails on a search whose detail fetch rejects: the count kept from the
  previous search, 7, is replaced by the 3 that the failed attempt's first call reported.
\<close>

theorem failed_detail_fetch_replaces_previous_count:
  "resultCount afterSearch = Finite 7
   \<and> error (finalState (detailOffline ''3'') afterSearch) = fetchErrorMessage
   \<and> resultCount (finalState (detailOffline ''3'') afterSearch) = Finite 3"
  by code_simp

text \<open>
  C9, amended. A new search clears the papers and the previous error message but not the
  count: when the search ends in the no-results message, or in the retry message raised
  before the identifier-search response has passed the no-results check (the query cannot
  be encoded, the identifier-search fetch rejects, or its body does not decode or is
  \<open>null\<close>), the count of the state it started from is still stored, and where that count is
  positive the statistics line renders it, with 0 shown, beside the error message.
\<close>

theorem count_survives_failure_before_count_is_stored:
  assumes "trim (query s) \<noteq> []"
  shows
    "(encodeURIComponent (query s @ domainFilter) = None \<longrightarrow>
        error (finalState P s) = fetchErrorMessage \<and> keepsCount s (finalState P s))
     \<and> (encodeURIComponent (query s @ domainFilter) = Some t
        \<and> fetch P (searchUrl t (maxResults s) (sortBy s)) = None \<longrightarrow>
        error (finalState P s) = fetchErrorMessage \<and> keepsCount s (finalState P s))
     \<and> (encodeURIComponent (query s @ domainFilter) = Some t
        \<and> fetch P (searchUrl t (maxResults s) (sortBy s)) = Some r \<and> json P r = None \<longrightarrow>
        error (finalState P s) = fetchErrorMessage \<and> keepsCount s (finalState P s))
     \<and> (encodeURIComponent (query s @ domainFilter) = Some t
        \<and> fetch P (searchUrl t (maxResults s) (sortBy s)) = Some r \<and> json P r = Some JNull \<longrightarrow>
        error (finalState P s) = fetchErrorMessage \<and> keepsCount s (finalState P s))
     \<and> (error (finalState P s) = noResultsMessage \<longrightarrow> keepsCount s (finalState P s))"
proof -
  let ?s0 = "s\<lparr>loading := True, error := [], papers := []\<rparr>"
  let ?u = "searchUrl t (maxResults s) (sortBy s)"
  let ?K = "error (finalState P s) = fetchErrorMessage \<and> keepsCount s (finalState P s)"
  note thrown = keepsCount_thrown [OF assms, of P]
  have 1: ?K if "encodeURIComponent (query s @ domainFilter) = None"
    using that by (intro thrown [of "[]"] tryBlock_encode_throws) simp
  have 2: ?K if "encodeURIComponent (query s @ domainFilter) = Some t" "fetch P ?u = None"
    using that by (intro thrown [of "[?u]"]) (simp add: tryBlock_search_rejects [of _ t])
  have 3: ?K if "encodeURIComponent (query s @ domainFilter) = Some t" "fetch P ?u = Some r"
      "json P r = None"
    using that by (intro thrown [of "[?u]"]) (simp add: tryBlock_json_rejects [of _ t _ r])
  have 4: ?K if "encodeURIComponent (query s @ domainFilter) = Some t" "fetch P ?u = Some r"
      "json P r = Some JNull"
    using that by (intro thrown [of "[?u]"]) (simp add: tryBlock_null_body [of _ t _ r])
  have 5: "keepsCount s (finalState P s)" if e: "error (finalState P s) = noResultsMessage"
  proof -
    have "fst (tryBlock P ?s0) = Return"
    proof (cases "fst (tryBlock P ?s0)")
      case Normal
      from tryBlock_Normal [OF this] Normal assms e show ?thesis
        using messages_nonempty(1) by (simp add: finalState_nonblank)
    next
      case Return
      then show ?thesis .
    next
      case Throw
      with assms e show ?thesis
        using messages_differ by (simp add: finalState_nonblank)
    qed
    from keepsCount_returned [OF assms this] show ?thesis by simp
  qed
  from 1 2 3 4 5 show ?thesis by blast
qed

theorem count_survives_failure_before_count_is_stored_witness:
  "trim (query afterSearch) \<noteq> []
   \<and> resultCount afterSearch = Finite 7
   \<and> encodeURIComponent (query afterSearch @ domainFilter) = Some aspirinTerm
   \<and> fetch offline (searchUrl aspirinTerm (maxResults afterSearch) (sortBy afterSearch)) = None
   \<and> error (finalState offline afterSearch) = fetchErrorMessage
   \<and> keepsCount afterSearch (finalState offline afterSearch)
   \<and> fetch garbled (searchUrl aspirinTerm (maxResults afterSearch) (sortBy afterSearch))
       = Some okResponse
   \<and> json garbled okResponse = None
   \<and> keepsCount afterSearch (finalState garbled afterSearch)
   \<and> fetch nullBody (searchUrl aspirinTerm (maxResults afterSearch) (sortBy afterSearch))
       = Some okResponse
   \<and> json nullBody okResponse = Some JNull
   \<and> keepsCount afterSearch (finalState nullBody afterSearch)
   \<and> error (finalState noMatches afterSearch) = noResultsMessage
   \<and> keepsCount afterSearch (finalState noMatches afterSearch)
   \<and> papers (finalState noMatches afterSearch) = []
   \<and> resultCount (finalState noMatches afterSearch) = Finite 7
   \<and> errorBox (render (finalState noMatches afterSearch)) = Some noResultsMessage
   \<and> stats (render (finalState noMatches afterSearch)) = Some (Finite 7, 0)
   \<and> trim (query (afterSearch\<lparr>query := [0xD800]\<rparr>)) \<noteq> []
   \<and> encodeURIComponent (query (afterSearch\<lparr>query := [0xD800]\<rparr>) @ domainFilter) = None
   \<and> keepsCount (afterSearch\<lparr>query := [0xD800]\<rparr>)
         (finalState healthy (afterSearch\<lparr>query := [0xD800]\<rparr>))"
proof -
  let ?u = "searchUrl aspirinTerm (maxResults afterSearch) (sortBy afterSearch)"
  let ?x = "afterSearch\<lparr>query := [0xD800]\<rparr>"
  have nb: "trim (query afterSearch) \<noteq> []" by code_simp
  have rc: "resultCount afterSearch = Finite 7" by (simp add: afterSearch_def)
  have enc: "encodeURIComponent (query afterSearch @ domainFilter) = Some aspirinTerm"
    by code_simp
  note inst = count_survives_failure_before_count_is_stored [OF nb]
  have a1: "fetch offline ?u = None" by code_simp
  from inst [where t = aspirinTerm and P = offline] enc a1
  have a2: "error (finalState offline afterSearch) = fetchErrorMessage
      \<and> keepsCount afterSearch (finalState offline afterSearch)"
    by blast
  have b1: "fetch garbled ?u = Some okResponse" by code_simp
  have b2: "json garbled okResponse = None" by (simp add: garbled_def scripted_def)
  from inst [where t = aspirinTerm and P = garbled and r = okResponse] enc b1 b2
  have b3: "keepsCount afterSearch (finalState garbled afterSearch)" by blast
  have c1: "fetch nullBody ?u = Some okResponse" by code_simp
  have c2: "json nullBody okResponse = Some JNull" by (simp add: nullBody_def scripted_def)
  from inst [where t = aspirinTerm and P = nullBody and r = okResponse] enc c1 c2
  have c3: "keepsCount afterSearch (finalState nullBody afterSearch)" by blast
  have d1: "error (finalState noMatches afterSearch) = noResultsMessage" by code_simp
  from inst [where P = noMatches] d1
  have d2: "keepsCount afterSearch (finalState noMatches afterSearch)" by blast
  from d2 d1 rc have d3: "papers (finalState noMatches afterSearch) = []
      \<and> resultCount (finalState noMatches afterSearch) = Finite 7
      \<and> errorBox (render (finalState noMatches afterSearch)) = Some noResultsMessage
      \<and> stats (render (finalState noMatches afterSearch)) = Some (Finite 7, 0)"
    by (simp add: keepsCount_def)
  have e1: "trim (query ?x) \<noteq> []" by code_simp
  have e2: "encodeURIComponent (query ?x @ domainFilter) = None" by code_simp
  from count_survives_failure_before_count_is_stored [OF e1, where P = healthy] e2
  have e3: "keepsCount ?x (finalState healthy ?x)" by blast
  from nb rc enc a1 a2 b1 b2 b3 c1 c2 c3 d1 d2 d3 e1 e2 e3 show ?thesis by blast
qed

text \<open>
  The path on which nothing rejects: both requests are issued, the count and the parsed
  papers are stored, and no error message is set.
\<close>

lemma searchPapers_success:
  assumes "trim (query s) \<noteq> []"
    and "encodeURIComponent (query s @ domainFilter) = Some t"
    and "fetch P (searchUrl t (maxResults s) (sortBy s)) = Some r"
    and "json P r = Some d"
    and "identifiers d \<noteq> []"
    and "fetch P (fetchUrl (arrayJoin (numberToString P) (str '','') (identifiers d))) = Some r2"
    and "text' P r2 = Some x"
  shows "papers (finalState P s) = parsePapers (parseFromString P x)
     \<and> error (finalState P s) = []
     \<and> \<not> loading (finalState P s)
     \<and> requestsIssued P s =
         [searchUrl t (maxResults s) (sortBy s),
          fetchUrl (arrayJoin (numberToString P) (str '','') (identifiers d))]"
proof -
  let ?s0 = "s\<lparr>loading := True, error := [], papers := []\<rparr>"
  have enc: "encodeURIComponent (query ?s0 @ domainFilter) = Some t"
    using assms(2) by simp
  from assms(3) have f: "fetch P (searchUrl t (maxResults ?s0) (sortBy ?s0)) = Some r"
    by simp
  from tryBlock_identifiers [OF enc f assms(4) assms(5)] assms(6) assms(7)
  obtain n where "tryBlock P ?s0 =
      (Normal, ?s0\<lparr>resultCount := n, papers := parsePapers (parseFromString P x)\<rparr>,
       [searchUrl t (maxResults s) (sortBy s),
        fetchUrl (arrayJoin (numberToString P) (str '','') (identifiers d))])"
    by auto
  with assms(1) show ?thesis
    by (simp add: finalState_nonblank requestsIssued_nonblank)
qed

text \<open>
  A search that the provider answers in full: two identifiers, two articles in the
  payload, of which the untitled one is dropped.
\<close>

lemma healthy_search_scenario:
  "stats (render (finalState healthy aspirinState)) = Some (Finite 2, 1)
   \<and> length (results (render (finalState healthy aspirinState))) = 1
   \<and> errorBox (render (finalState healthy aspirinState)) = None
   \<and> requestsIssued healthy aspirinState = [aspirinUrl, fetchUrl (str ''42,31452104'')]"
  by code_simp

text \<open>
  A search response whose \<open>idlist\<close> is a string and not a list: its length passes the
  no-results check and the count is stored, then \<open>ids.join\<close> throws before the detail
  request is made.
\<close>

lemma idlist_string_scenario:
  "requestsIssued idlistAsString afterSearch = [aspirinUrl]
   \<and> error (finalState idlistAsString afterSearch) = fetchErrorMessage
   \<and> resultCount (finalState idlistAsString afterSearch) = Finite 3"
  by code_simp

text \<open>A count beyond the integers a double holds exactly is stored rounded.\<close>

lemma parsedCount_rounds:
  "parsedCount (str ''9007199254740993'') = Finite 9007199254740992"
  by code_simp

end
